theory Spec2Isabelle
  imports Main "HOL-Library.Word"
begin

unbundle bit_operations_syntax

section \<open>Bytes, buffers and identities\<close>

text \<open>
  A Node \<open>Buffer\<close> is a sequence of bytes. A \<open>PublicKey\<close> of the ledger
  client library is a 256-bit identity; \<open>toBuffer\<close> gives its 32 bytes and two keys
  are \<open>equals\<close> exactly when their bytes agree. A SHA-256 digest is a buffer of 32 bytes.
\<close>

type_synonym byte = "8 word"

type_synonym Buffer = "byte list"

typedef PublicKey = "{bs :: byte list. length bs = 32}"
  morphisms toBuffer PublicKey
  by (rule exI [of _ "replicate 32 0"]) simp

typedef Sha256Digest = "{bs :: byte list. length bs = 32}"
  morphisms digest Sha256Digest
  by (rule exI [of _ "replicate 32 0"]) simp

text \<open>
  \<open>Buffer.from(s)\<close> and \<open>hash.update(s)\<close> on a string take its UTF-8 bytes. A
  \<open>string\<close> here is the sequence of those UTF-8 code units.
\<close>

definition Buffer_from :: "string \<Rightarrow> Buffer" where
  "Buffer_from s = map (\<lambda>c. of_nat (of_char c)) s"

text \<open>\<open>Buffer.alloc(n)\<close>: \<open>n\<close> zero bytes.\<close>

definition Buffer_alloc :: "nat \<Rightarrow> Buffer" where
  "Buffer_alloc n = replicate n 0"

text \<open>\<open>Buffer.concat(list)\<close>.\<close>

definition Buffer_concat :: "Buffer list \<Rightarrow> Buffer" where
  "Buffer_concat bs = concat bs"

text \<open>\<open>buf.subarray(start, end)\<close> for indices that are not negative.\<close>

definition subarray :: "Buffer \<Rightarrow> nat \<Rightarrow> nat \<Rightarrow> Buffer" where
  "subarray buf start end' = take (end' - start) (drop start buf)"

section \<open>The client library, as far as the scripts use it\<close>

text \<open>
  The scripts import the hash, the address derivation and three well-known program
  identities from libraries. They are parameters of the model.
\<close>

record lib =
  sha256 :: "Buffer \<Rightarrow> Sha256Digest"
  findProgramAddress :: "Buffer list \<Rightarrow> PublicKey \<Rightarrow> (PublicKey \<times> nat) option"
  TOKEN_PROGRAM_ID :: PublicKey
  ASSOCIATED_TOKEN_PROGRAM_ID :: PublicKey
  SystemProgram_programId :: PublicKey

record AccountMeta =
  pubkey :: PublicKey
  isSigner :: bool
  isWritable :: bool

record TransactionInstruction =
  programId :: PublicKey
  keys :: "AccountMeta list"
  data :: Buffer

text \<open>
  What a script can throw. \<open>SendTransactionError\<close> carries whatever the submission
  rejected with.
\<close>

datatype 'e error =
    ERR_OUT_OF_RANGE
  | ERR_BUFFER_OUT_OF_BOUNDS
  | InvalidPublicKeyInput
  | NoViableNonce
  | TokenOwnerOffCurve
  | WalletMismatch
  | SendTransactionError 'e

section \<open>Fixed-width integer access of a buffer\<close>

text \<open>
  \<open>buf[i] = n\<close> on a byte buffer stores \<open>n\<close> modulo 256.
\<close>

definition u8 :: "int \<Rightarrow> byte" where
  "u8 v = word_of_int v"

text \<open>
  Node's \<open>boundsError(offset, buf.length - 8)\<close>, raised when the eight bytes at
  \<open>offset\<close> do not lie in the buffer: \<open>ERR_BUFFER_OUT_OF_BOUNDS\<close> when the buffer
  itself is shorter than eight bytes, \<open>ERR_OUT_OF_RANGE\<close> (on the offset) otherwise.
\<close>

definition boundsError :: "Buffer \<Rightarrow> 'e error" where
  "boundsError buf = (if length buf < 8 then ERR_BUFFER_OUT_OF_BOUNDS else ERR_OUT_OF_RANGE)"

text \<open>
  Node's \<open>writeBigU_Int64LE(buf, value, offset, min, max)\<close>: a value outside
  \<open>[min, max]\<close> is refused with \<open>ERR_OUT_OF_RANGE\<close>, a write that does not fit the
  buffer with the bounds error; otherwise the low and the high 32 bits of the two's
  complement value are stored byte by byte, lowest first. The model returns the updated
  buffer.
\<close>

definition writeBigU_Int64LE ::
  "Buffer \<Rightarrow> int \<Rightarrow> nat \<Rightarrow> int \<Rightarrow> int \<Rightarrow> 'e error + Buffer" where
  "writeBigU_Int64LE buf v offset min' max' =
     (if v > max' \<or> v < min' then Inl ERR_OUT_OF_RANGE
      else if length buf < offset + 8 then Inl (boundsError buf)
      else
        let lo = v AND 0xffffffff;
            hi = drop_bit 32 v AND 0xffffffff
        in Inr (take offset buf @
                [u8 lo, u8 (drop_bit 8 lo), u8 (drop_bit 16 lo), u8 (drop_bit 24 lo),
                 u8 hi, u8 (drop_bit 8 hi), u8 (drop_bit 16 hi), u8 (drop_bit 24 hi)] @
                drop (offset + 8) buf))"

definition writeBigUInt64LE :: "Buffer \<Rightarrow> int \<Rightarrow> nat \<Rightarrow> 'e error + Buffer" where
  "writeBigUInt64LE buf v offset = writeBigU_Int64LE buf v offset 0 0xffffffffffffffff"

definition writeBigInt64LE :: "Buffer \<Rightarrow> int \<Rightarrow> nat \<Rightarrow> 'e error + Buffer" where
  "writeBigInt64LE buf v offset =
     writeBigU_Int64LE buf v offset (- 0x8000000000000000) 0x7fffffffffffffff"

text \<open>
  The readers of the same buffer interface, which a receiver of the payload uses:
  \<open>readBigUInt64LE\<close> sums the eight bytes at \<open>offset\<close> with weights \<open>256 ^ i\<close>,
  \<open>readBigInt64LE\<close> reads the same bytes as a two's complement value. Both raise
  the bounds error when the eight bytes do not lie in the buffer.
\<close>

definition readBigUInt64LE :: "Buffer \<Rightarrow> nat \<Rightarrow> 'e error + int" where
  "readBigUInt64LE buf offset =
     (if length buf < offset + 8 then Inl (boundsError buf)
      else
        let lo = uint (buf ! offset) + uint (buf ! (offset + 1)) * 2 ^ 8 +
                 uint (buf ! (offset + 2)) * 2 ^ 16 + uint (buf ! (offset + 3)) * 2 ^ 24;
            hi = uint (buf ! (offset + 4)) + uint (buf ! (offset + 5)) * 2 ^ 8 +
                 uint (buf ! (offset + 6)) * 2 ^ 16 + uint (buf ! (offset + 7)) * 2 ^ 24
        in Inr (lo + push_bit 32 hi))"

definition readBigInt64LE :: "Buffer \<Rightarrow> nat \<Rightarrow> 'e error + int" where
  "readBigInt64LE buf offset =
     (case readBigUInt64LE buf offset of
        Inl e \<Rightarrow> Inl e
      | Inr u \<Rightarrow> Inr (if u < 2 ^ 63 then u else u - 2 ^ 64))"

text \<open>
  The wire format's words for the arguments: a 64-bit word laid out in little-endian
  order, byte \<open>i\<close> holding bits \<open>8 i\<close> to \<open>8 i + 7\<close>. An amount is the word read
  unsigned (\<open>uint\<close>), a timestamp the word read signed (\<open>sint\<close>).
\<close>

definition le64 :: "64 word \<Rightarrow> Buffer" where
  "le64 w = map (\<lambda>i. ucast (drop_bit (8 * i) w)) [0..<8]"

section \<open>Helpers of the scripts\<close>

text \<open>
  \<open>discriminator\<close> (declared with the same text in both scripts): the first 8 bytes
  of \<open>sha256("global:<fn_name>")\<close>.
\<close>

definition discriminator :: "('z) lib_scheme \<Rightarrow> string \<Rightarrow> Buffer" where
  "discriminator L ixName =
     (let preimage = ''global:'' @ ixName;
          hash = digest (sha256 L (Buffer_from preimage))
      in subarray hash 0 8)"

text \<open>\<open>deriveVaultPda\<close> (the same text in both scripts): seeds \<open>["vault", mint, authority]\<close>.\<close>

definition deriveVaultPda ::
  "('z) lib_scheme \<Rightarrow> PublicKey \<Rightarrow> PublicKey \<Rightarrow> PublicKey \<Rightarrow> (PublicKey \<times> nat) option" where
  "deriveVaultPda L programId' mint authority =
     findProgramAddress L [Buffer_from ''vault'', toBuffer mint, toBuffer authority] programId'"

text \<open>\<open>deriveEscrowPda\<close>: seeds \<open>["escrow", vault, buyer, seller]\<close>.\<close>

definition deriveEscrowPda ::
  "('z) lib_scheme \<Rightarrow> PublicKey \<Rightarrow> PublicKey \<Rightarrow> PublicKey \<Rightarrow> PublicKey \<Rightarrow> (PublicKey \<times> nat) option" where
  "deriveEscrowPda L programId' vaultPk buyerPk sellerPk =
     findProgramAddress L
       [Buffer_from ''escrow'', toBuffer vaultPk, toBuffer buyerPk, toBuffer sellerPk]
       programId'"

section \<open>Instruction encoders\<close>

record InitVaultParams =
  iv_programId :: PublicKey
  iv_authority :: PublicKey
  iv_mint :: PublicKey
  iv_vaultPda :: PublicKey

definition encodeInitVaultIx ::
  "('z) lib_scheme \<Rightarrow> InitVaultParams \<Rightarrow> TransactionInstruction" where
  "encodeInitVaultIx L params =
     (let data' = discriminator L ''init_vault'';
          keys' =
            [ \<lparr>pubkey = iv_authority params, isSigner = True, isWritable = True\<rparr>,
              \<lparr>pubkey = iv_mint params, isSigner = False, isWritable = False\<rparr>,
              \<lparr>pubkey = iv_vaultPda params, isSigner = False, isWritable = True\<rparr>,
              \<lparr>pubkey = SystemProgram_programId L, isSigner = False, isWritable = False\<rparr> ]
      in \<lparr>programId = iv_programId params, keys = keys', data = data'\<rparr>)"

record LockTokensParams =
  lt_programId :: PublicKey
  lt_user :: PublicKey
  lt_mint :: PublicKey
  lt_vaultPda :: PublicKey
  lt_vaultAta :: PublicKey
  lt_userAta :: PublicKey
  lt_amount :: int

definition encodeLockTokensIx ::
  "('z) lib_scheme \<Rightarrow> LockTokensParams \<Rightarrow> 'e error + TransactionInstruction" where
  "encodeLockTokensIx L params =
     (let disc = discriminator L ''lock_tokens'' in
      case writeBigUInt64LE (Buffer_alloc 8) (lt_amount params) 0 of
        Inl e \<Rightarrow> Inl e
      | Inr amountBuf \<Rightarrow>
          let data' = Buffer_concat [disc, amountBuf];
              keys' =
                [ \<lparr>pubkey = lt_user params, isSigner = True, isWritable = True\<rparr>,
                  \<lparr>pubkey = lt_mint params, isSigner = False, isWritable = False\<rparr>,
                  \<lparr>pubkey = lt_vaultPda params, isSigner = False, isWritable = False\<rparr>,
                  \<lparr>pubkey = lt_vaultAta params, isSigner = False, isWritable = True\<rparr>,
                  \<lparr>pubkey = lt_userAta params, isSigner = False, isWritable = True\<rparr>,
                  \<lparr>pubkey = TOKEN_PROGRAM_ID L, isSigner = False, isWritable = False\<rparr>,
                  \<lparr>pubkey = ASSOCIATED_TOKEN_PROGRAM_ID L, isSigner = False,
                     isWritable = False\<rparr>,
                  \<lparr>pubkey = SystemProgram_programId L, isSigner = False,
                     isWritable = False\<rparr> ]
          in Inr \<lparr>programId = lt_programId params, keys = keys', data = data'\<rparr>)"

record InitEscrowParams =
  ie_programId :: PublicKey
  ie_buyer :: PublicKey
  ie_seller :: PublicKey
  ie_mint :: PublicKey
  ie_vault :: PublicKey
  ie_escrow :: PublicKey
  ie_amount :: int
  ie_deadlineUnixTs :: int

definition encodeInitEscrowIx ::
  "('z) lib_scheme \<Rightarrow> InitEscrowParams \<Rightarrow> 'e error + TransactionInstruction" where
  "encodeInitEscrowIx L params =
     (let disc = discriminator L ''init_escrow'' in
      case writeBigUInt64LE (Buffer_alloc 8) (ie_amount params) 0 of
        Inl e \<Rightarrow> Inl e
      | Inr amountBuf \<Rightarrow>
         (case writeBigInt64LE (Buffer_alloc 8) (ie_deadlineUnixTs params) 0 of
            Inl e \<Rightarrow> Inl e
          | Inr deadlineBuf \<Rightarrow>
              let data' = Buffer_concat [disc, amountBuf, deadlineBuf];
                  keys' =
                    [ \<lparr>pubkey = ie_buyer params, isSigner = True, isWritable = True\<rparr>,
                      \<lparr>pubkey = ie_seller params, isSigner = False, isWritable = False\<rparr>,
                      \<lparr>pubkey = ie_mint params, isSigner = False, isWritable = False\<rparr>,
                      \<lparr>pubkey = ie_vault params, isSigner = False, isWritable = False\<rparr>,
                      \<lparr>pubkey = ie_escrow params, isSigner = False, isWritable = True\<rparr>,
                      \<lparr>pubkey = SystemProgram_programId L, isSigner = False,
                         isWritable = False\<rparr> ]
              in Inr \<lparr>programId = ie_programId params, keys = keys', data = data'\<rparr>))"

record ReleaseToSellerParams =
  rs_programId :: PublicKey
  rs_buyer :: PublicKey
  rs_seller :: PublicKey
  rs_mint :: PublicKey
  rs_escrow :: PublicKey
  rs_vault :: PublicKey
  rs_vaultAta :: PublicKey
  rs_sellerAta :: PublicKey

definition encodeReleaseToSellerIx ::
  "('z) lib_scheme \<Rightarrow> ReleaseToSellerParams \<Rightarrow> TransactionInstruction" where
  "encodeReleaseToSellerIx L params =
     (let disc = discriminator L ''release_to_seller'';
          data' = disc;
          keys' =
            [ \<lparr>pubkey = rs_buyer params, isSigner = True, isWritable = True\<rparr>,
              \<lparr>pubkey = rs_seller params, isSigner = False, isWritable = True\<rparr>,
              \<lparr>pubkey = rs_mint params, isSigner = False, isWritable = False\<rparr>,
              \<lparr>pubkey = rs_escrow params, isSigner = False, isWritable = True\<rparr>,
              \<lparr>pubkey = rs_vault params, isSigner = False, isWritable = False\<rparr>,
              \<lparr>pubkey = rs_vaultAta params, isSigner = False, isWritable = True\<rparr>,
              \<lparr>pubkey = rs_sellerAta params, isSigner = False, isWritable = True\<rparr>,
              \<lparr>pubkey = TOKEN_PROGRAM_ID L, isSigner = False, isWritable = False\<rparr>,
              \<lparr>pubkey = ASSOCIATED_TOKEN_PROGRAM_ID L, isSigner = False, isWritable = False\<rparr>,
              \<lparr>pubkey = SystemProgram_programId L, isSigner = False, isWritable = False\<rparr> ]
      in \<lparr>programId = rs_programId params, keys = keys', data = data'\<rparr>)"

section \<open>The environment of a script run\<close>

text \<open>
  A transaction is the list of its instructions. An instruction is either one that the
  scripts encode themselves or one built by the token library, which is kept as the call
  that built it: \<open>SystemProgram.createAccount\<close>, \<open>createInitializeMint2Instruction\<close>,
  \<open>createAssociatedTokenAccountInstruction\<close> and \<open>createMintToInstruction\<close>.
\<close>

datatype instruction =
    Encoded TransactionInstruction
  | CreateAccount PublicKey PublicKey nat nat PublicKey
  | InitializeMint2 PublicKey nat PublicKey PublicKey
  | CreateAssociatedTokenAccount PublicKey PublicKey PublicKey PublicKey PublicKey PublicKey
  | MintTo PublicKey PublicKey PublicKey int PublicKey

type_synonym Transaction = "instruction list"

text \<open>
  What a run reads from outside the scripts: the library (\<open>lib\<close>), the parser and the
  printer of identities (\<open>new PublicKey(s)\<close> throws on a string that is no identity),
  the holding-account address of an (asset, owner) pair (which throws for an off-curve
  owner unless allowed), the local wallet \<open>payer\<close> of \<open>_shared.ts\<close>, the submission of
  a transaction to the ledger (which changes the ledger \<open>'w\<close> and either returns a
  signature or rejects with an \<open>'e\<close>), the clock in milliseconds, the key pair that
  \<open>Keypair.generate()\<close> returns in this run, and the rent query and the account size
  of the first script.
\<close>

record ('w, 'e) env = lib +
  new_PublicKey :: "string \<Rightarrow> PublicKey option"
  toBase58 :: "PublicKey \<Rightarrow> string"
  getAssociatedTokenAddress ::
    "PublicKey \<Rightarrow> PublicKey \<Rightarrow> bool \<Rightarrow> PublicKey \<Rightarrow> PublicKey \<Rightarrow> PublicKey option"
  payer_publicKey :: PublicKey
  sendAndConfirmTransaction :: "'w \<Rightarrow> Transaction \<Rightarrow> PublicKey list \<Rightarrow> ('e + string) \<times> 'w"
  Date_now :: int
  Keypair_generate :: PublicKey
  getMinimumBalanceForRentExemptMint :: "'w \<Rightarrow> nat"
  MINT_SIZE :: nat

text \<open>The content of \<open>deploy-info.json\<close>.\<close>

record deploy_info =
  info_programId :: string
  info_mint :: string
  info_payer :: string
  info_payerAta :: string
  info_decimals :: nat
  info_tokenName :: string

text \<open>A line of console output: a text, possibly followed by one printed value.\<close>

datatype 'e log =
    Log string
  | LogKey string PublicKey
  | LogSig string string
  | LogError "'e error"
  | LogInfo deploy_info

text \<open>
  The state of a run: the ledger, the transactions submitted so far (in order, whether
  accepted or not) and the console output.
\<close>

record ('w, 'e) run =
  world :: 'w
  sent :: "Transaction list"
  console :: "'e log list"

section \<open>Sequencing, exceptions and effects\<close>

type_synonym ('w, 'e, 'a) script = "('w, 'e) run \<Rightarrow> ('e error + 'a) \<times> ('w, 'e) run"

definition ok :: "'a \<Rightarrow> ('w, 'e, 'a) script" where
  "ok a = (\<lambda>s. (Inr a, s))"

definition throw :: "'e error \<Rightarrow> ('w, 'e, 'a) script" where
  "throw e = (\<lambda>s. (Inl e, s))"

definition andThen :: "('w, 'e, 'a) script \<Rightarrow> ('a \<Rightarrow> ('w, 'e, 'b) script) \<Rightarrow> ('w, 'e, 'b) script" where
  "andThen m f = (\<lambda>s. case m s of (Inl e, s') \<Rightarrow> (Inl e, s') | (Inr a, s') \<Rightarrow> f a s')"

definition tryCatch :: "('w, 'e, 'a) script \<Rightarrow> ('e error \<Rightarrow> ('w, 'e, 'a) script) \<Rightarrow> ('w, 'e, 'a) script" where
  "tryCatch m h = (\<lambda>s. case m s of (Inl e, s') \<Rightarrow> h e s' | (Inr a, s') \<Rightarrow> (Inr a, s'))"

definition orThrow :: "'e error \<Rightarrow> 'a option \<Rightarrow> ('w, 'e, 'a) script" where
  "orThrow e opt = (case opt of None \<Rightarrow> throw e | Some a \<Rightarrow> ok a)"

definition fromResult :: "'e error + 'a \<Rightarrow> ('w, 'e, 'a) script" where
  "fromResult r = (case r of Inl e \<Rightarrow> throw e | Inr a \<Rightarrow> ok a)"

definition console_log :: "'e log \<Rightarrow> ('w, 'e, unit) script" where
  "console_log l = (\<lambda>s. (Inr (), s\<lparr>console := console s @ [l]\<rparr>))"

text \<open>
  \<open>await sendAndConfirmTransaction(connection, tx, signers)\<close>: the transaction is
  recorded as submitted; a rejection is thrown.
\<close>

definition send :: "('w, 'e, 'z) env_scheme \<Rightarrow> Transaction \<Rightarrow> PublicKey list \<Rightarrow> ('w, 'e, string) script" where
  "send E tx signers =
     (\<lambda>s. case sendAndConfirmTransaction E (world s) tx signers of
             (Inl e, w') \<Rightarrow> (Inl (SendTransactionError e), s\<lparr>world := w', sent := sent s @ [tx]\<rparr>)
           | (Inr sig, w') \<Rightarrow> (Inr sig, s\<lparr>world := w', sent := sent s @ [tx]\<rparr>))"

text \<open>\<open>pubkeyFromString\<close> of \<open>_shared.ts\<close>.\<close>

definition pubkeyFromString :: "('w, 'e, 'z) env_scheme \<Rightarrow> string \<Rightarrow> ('w, 'e, PublicKey) script" where
  "pubkeyFromString E s = orThrow InvalidPublicKeyInput (new_PublicKey E s)"

section \<open>Script 2: vault and custody\<close>

text \<open>
  The driver of \<open>2_vault_and_escrow.ts\<close>, in its numbered steps. Step 1 loads the
  identities of \<open>deploy-info.json\<close> and checks the wallet.
\<close>

definition vault_load ::
  "('w, 'e, 'z) env_scheme \<Rightarrow> deploy_info \<Rightarrow>
   ('w, 'e, PublicKey \<times> PublicKey \<times> PublicKey \<times> PublicKey) script" where
  "vault_load E info =
     andThen (pubkeyFromString E (info_programId info)) (\<lambda>programId'.
     andThen (pubkeyFromString E (info_mint info)) (\<lambda>mint.
     andThen (pubkeyFromString E (info_payer info)) (\<lambda>buyer.
     andThen (pubkeyFromString E (info_payerAta info)) (\<lambda>buyerAta.
     andThen (console_log (LogKey ''Program ID:'' programId')) (\<lambda>_.
     andThen (console_log (LogKey ''Mint:'' mint)) (\<lambda>_.
     andThen (console_log (LogKey ''Buyer (authority):'' buyer)) (\<lambda>_.
     andThen (console_log (LogKey ''Buyer ATA:'' buyerAta)) (\<lambda>_.
     if buyer \<noteq> payer_publicKey E then throw WalletMismatch
     else ok (programId', mint, buyer, buyerAta)))))))))"

text \<open>
  Steps 2 to 5: derive the addresses, then submit the three transactions. (The closing
  console lines are kept without their emoji and with \<open>->\<close> for the arrows.)
\<close>

definition vault_submit ::
  "('w, 'e, 'z) env_scheme \<Rightarrow> PublicKey \<Rightarrow> PublicKey \<Rightarrow> PublicKey \<Rightarrow> PublicKey \<Rightarrow>
   ('w, 'e, unit) script" where
  "vault_submit E programId' mint buyer buyerAta =
     andThen (orThrow NoViableNonce (deriveVaultPda E programId' mint buyer)) (\<lambda>(vaultPda, bump).
     andThen (console_log (LogKey ''Vault PDA:'' vaultPda)) (\<lambda>_.
     andThen (orThrow TokenOwnerOffCurve
        (getAssociatedTokenAddress E mint vaultPda True
           (TOKEN_PROGRAM_ID E) (ASSOCIATED_TOKEN_PROGRAM_ID E))) (\<lambda>vaultAta.
     andThen (console_log (LogKey ''Vault ATA:'' vaultAta)) (\<lambda>_.
     let initVaultIx = encodeInitVaultIx E
           \<lparr>iv_programId = programId', iv_authority = buyer, iv_mint = mint,
            iv_vaultPda = vaultPda\<rparr> in
     andThen (tryCatch
        (andThen (send E [Encoded initVaultIx] [payer_publicKey E]) (\<lambda>sig1.
         console_log (LogSig ''init_vault tx sig:'' sig1)))
        (\<lambda>e.
         andThen (console_log (Log ''init_vault probably already ran, skipping. Details:'')) (\<lambda>_.
         console_log (LogError e)))) (\<lambda>_.
     let createVaultAtaIx = CreateAssociatedTokenAccount buyer vaultAta vaultPda mint
           (TOKEN_PROGRAM_ID E) (ASSOCIATED_TOKEN_PROGRAM_ID E) in
     andThen (tryCatch
        (andThen (send E [createVaultAtaIx] [payer_publicKey E]) (\<lambda>sig2.
         console_log (LogSig ''create vault ATA tx sig:'' sig2)))
        (\<lambda>e.
         andThen (console_log (Log ''vault ATA likely already exists, skipping. Details:'')) (\<lambda>_.
         console_log (LogError e)))) (\<lambda>_.
     let amountToLock = 100000 in
     andThen (fromResult (encodeLockTokensIx E
           \<lparr>lt_programId = programId', lt_user = buyer, lt_mint = mint, lt_vaultPda = vaultPda,
            lt_vaultAta = vaultAta, lt_userAta = buyerAta, lt_amount = amountToLock\<rparr>))
       (\<lambda>lockTokensIx.
     andThen (send E [Encoded lockTokensIx] [payer_publicKey E]) (\<lambda>sig3.
     andThen (console_log (LogSig ''lock_tokens tx sig:'' sig3)) (\<lambda>_.
     andThen (console_log (Log ''DONE'')) (\<lambda>_.
     andThen (console_log (Log ''- Vault PDA is initialized on devnet.'')) (\<lambda>_.
     andThen (console_log (Log ''- Vault ATA exists for that PDA and mint.'')) (\<lambda>_.
     andThen (console_log
        (Log ''- ~0.1 Goblin Gold moved from your wallet ATA into the vault ATA.'')) (\<lambda>_.
     andThen (console_log
        (Log ''That completes: mint token -> create vault -> lock tokens in vault.'')) (\<lambda>_.
     console_log (Log ''Escrow is next.'')))))))))))))))"

definition main_vault :: "('w, 'e, 'z) env_scheme \<Rightarrow> deploy_info \<Rightarrow> ('w, 'e, unit) script" where
  "main_vault E info =
     andThen (vault_load E info) (\<lambda>(programId', mint, buyer, buyerAta).
     vault_submit E programId' mint buyer buyerAta)"

section \<open>Script 3: agreement and release\<close>

text \<open>Step 1 of the escrow driver: the same loading and wallet check.\<close>

definition escrow_load ::
  "('w, 'e, 'z) env_scheme \<Rightarrow> deploy_info \<Rightarrow>
   ('w, 'e, PublicKey \<times> PublicKey \<times> PublicKey \<times> PublicKey) script" where
  "escrow_load E info =
     andThen (pubkeyFromString E (info_programId info)) (\<lambda>programId'.
     andThen (pubkeyFromString E (info_mint info)) (\<lambda>mint.
     andThen (pubkeyFromString E (info_payer info)) (\<lambda>buyer.
     andThen (pubkeyFromString E (info_payerAta info)) (\<lambda>buyerAta.
     andThen (console_log (LogKey ''Program ID:'' programId')) (\<lambda>_.
     andThen (console_log (LogKey ''Mint:'' mint)) (\<lambda>_.
     andThen (console_log (LogKey ''Buyer:'' buyer)) (\<lambda>_.
     andThen (console_log (LogKey ''Buyer ATA:'' buyerAta)) (\<lambda>_.
     if buyer \<noteq> payer_publicKey E then throw WalletMismatch
     else ok (programId', mint, buyer, buyerAta)))))))))"

text \<open>Steps 2 to 4: the seller of this run and the addresses.\<close>

definition escrow_addresses ::
  "('w, 'e, 'z) env_scheme \<Rightarrow> PublicKey \<Rightarrow> PublicKey \<Rightarrow> PublicKey \<Rightarrow>
   ('w, 'e, PublicKey \<times> PublicKey \<times> PublicKey \<times> PublicKey \<times> PublicKey) script" where
  "escrow_addresses E programId' mint buyer =
     (let seller = Keypair_generate E in
      andThen (console_log (LogKey ''Seller pubkey:'' seller)) (\<lambda>_.
      andThen (orThrow NoViableNonce (deriveVaultPda E programId' mint buyer)) (\<lambda>(vaultPda, bump).
      andThen (console_log (LogKey ''Vault PDA:'' vaultPda)) (\<lambda>_.
      andThen (orThrow NoViableNonce (deriveEscrowPda E programId' vaultPda buyer seller))
        (\<lambda>(escrowPda, bump).
      andThen (console_log (LogKey ''Escrow PDA:'' escrowPda)) (\<lambda>_.
      andThen (orThrow TokenOwnerOffCurve
         (getAssociatedTokenAddress E mint vaultPda True
            (TOKEN_PROGRAM_ID E) (ASSOCIATED_TOKEN_PROGRAM_ID E))) (\<lambda>vaultAta.
      andThen (console_log (LogKey ''Vault ATA:'' vaultAta)) (\<lambda>_.
      andThen (orThrow TokenOwnerOffCurve
         (getAssociatedTokenAddress E mint seller False
            (TOKEN_PROGRAM_ID E) (ASSOCIATED_TOKEN_PROGRAM_ID E))) (\<lambda>sellerAta.
      andThen (console_log (LogKey ''Seller ATA:'' sellerAta)) (\<lambda>_.
      ok (seller, vaultPda, escrowPda, vaultAta, sellerAta)))))))))))"

text \<open>
  Steps 5 to 8: build \<open>init_escrow\<close> for 50000 units with the deadline one hour after
  the clock, submit it together with the creation of the seller's holding account, then
  build and submit \<open>release_to_seller\<close>. \<open>Math.floor(Date.now() / 1000)\<close> is the
  clock's milliseconds divided by 1000, rounded down. (The console line that announces
  completion is kept without its emoji.)
\<close>

definition escrow_submit ::
  "('w, 'e, 'z) env_scheme \<Rightarrow> PublicKey \<Rightarrow> PublicKey \<Rightarrow> PublicKey \<Rightarrow>
   PublicKey \<times> PublicKey \<times> PublicKey \<times> PublicKey \<times> PublicKey \<Rightarrow> ('w, 'e, unit) script" where
  "escrow_submit E programId' mint buyer addrs =
     (case addrs of (seller, vaultPda, escrowPda, vaultAta, sellerAta) \<Rightarrow>
      let amountToEscrow = 50000;
          nowSec = Date_now E div 1000;
          deadlineSec = nowSec + 3600;
          deadlineUnixTs = deadlineSec in
      andThen (fromResult (encodeInitEscrowIx E
            \<lparr>ie_programId = programId', ie_buyer = buyer, ie_seller = seller, ie_mint = mint,
             ie_vault = vaultPda, ie_escrow = escrowPda, ie_amount = amountToEscrow,
             ie_deadlineUnixTs = deadlineUnixTs\<rparr>)) (\<lambda>initEscrowIx.
      let createSellerAtaIx = CreateAssociatedTokenAccount buyer sellerAta seller mint
            (TOKEN_PROGRAM_ID E) (ASSOCIATED_TOKEN_PROGRAM_ID E) in
      andThen (send E [createSellerAtaIx, Encoded initEscrowIx] [payer_publicKey E]) (\<lambda>sig1.
      andThen (console_log (LogSig ''init_escrow tx sig:'' sig1)) (\<lambda>_.
      let releaseIx = encodeReleaseToSellerIx E
            \<lparr>rs_programId = programId', rs_buyer = buyer, rs_seller = seller, rs_mint = mint,
             rs_escrow = escrowPda, rs_vault = vaultPda, rs_vaultAta = vaultAta,
             rs_sellerAta = sellerAta\<rparr> in
      andThen (send E [Encoded releaseIx] [payer_publicKey E]) (\<lambda>sig2.
      andThen (console_log (LogSig ''release_to_seller tx sig:'' sig2)) (\<lambda>_.
      andThen (console_log (Log ''ESCROW COMPLETE'')) (\<lambda>_.
      andThen (console_log
         (Log ''- Escrow PDA was created to track amount, seller, and deadline.'')) (\<lambda>_.
      andThen (console_log
         (Log ''- Seller ATA was created so they can receive Goblin Gold.'')) (\<lambda>_.
      andThen (console_log
         (Log ''- Tokens were released from your Vault PDA ATA to the seller.'')) (\<lambda>_.
      console_log (Log ''You have now completed Task 2 end-to-end on devnet.'')))))))))))"

definition main_escrow :: "('w, 'e, 'z) env_scheme \<Rightarrow> deploy_info \<Rightarrow> ('w, 'e, unit) script" where
  "main_escrow E info =
     andThen (escrow_load E info) (\<lambda>(programId', mint, buyer, buyerAta).
     andThen (escrow_addresses E programId' mint buyer) (\<lambda>addrs.
     escrow_submit E programId' mint buyer addrs))"

section \<open>Script 1: the asset\<close>

text \<open>
  The driver that creates the asset: one transaction that allocates the mint account,
  initialises it with \<open>DECIMALS\<close>, creates the payer's holding account and mints the
  initial amount into it; then it writes \<open>deploy-info.json\<close>, which the model returns.
  (The console line that announces the mint is kept without its emoji.)
\<close>

definition main_mint :: "('w, 'e, 'z) env_scheme \<Rightarrow> ('w, 'e, deploy_info) script" where
  "main_mint E =
     andThen (console_log (LogKey ''Payer pubkey:'' (payer_publicKey E))) (\<lambda>_.
     let TOKEN_NAME = ''Goblin Gold'';
         DECIMALS = 6;
         INITIAL_AMOUNT = 1000000 * 1000000;
         mintKeypair = Keypair_generate E in
     (\<lambda>s.
     (let rentLamports = getMinimumBalanceForRentExemptMint E (world s);
          createMintIx = CreateAccount (payer_publicKey E) mintKeypair rentLamports (MINT_SIZE E)
            (TOKEN_PROGRAM_ID E);
          initMintIx = InitializeMint2 mintKeypair DECIMALS (payer_publicKey E) (payer_publicKey E)
      in
      andThen (orThrow TokenOwnerOffCurve
         (getAssociatedTokenAddress E mintKeypair (payer_publicKey E) False
            (TOKEN_PROGRAM_ID E) (ASSOCIATED_TOKEN_PROGRAM_ID E))) (\<lambda>payerAta.
      let createAtaIx = CreateAssociatedTokenAccount (payer_publicKey E) payerAta
            (payer_publicKey E) mintKeypair (TOKEN_PROGRAM_ID E) (ASSOCIATED_TOKEN_PROGRAM_ID E);
          mintToIx = MintTo mintKeypair payerAta (payer_publicKey E) INITIAL_AMOUNT
            (TOKEN_PROGRAM_ID E)
      in
      andThen (send E [createMintIx, initMintIx, createAtaIx, mintToIx]
         [payer_publicKey E, mintKeypair]) (\<lambda>sig.
      andThen (console_log (Log ''Mint created and funded!'')) (\<lambda>_.
      andThen (console_log (LogSig ''Signature:'' sig)) (\<lambda>_.
      andThen (console_log (LogKey ''Mint address:'' mintKeypair)) (\<lambda>_.
      andThen (console_log (LogKey ''Your ATA for this mint:'' payerAta)) (\<lambda>_.
      let info =
            \<lparr> info_programId = ''AhtmyF1FM2NwGYECDzgjC6jbNtPnSRDFzhahugFfqkZW'',
              info_mint = toBase58 E mintKeypair,
              info_payer = toBase58 E (payer_publicKey E),
              info_payerAta = toBase58 E payerAta,
              info_decimals = DECIMALS,
              info_tokenName = TOKEN_NAME \<rparr> in
      andThen (console_log (Log ''Wrote deploy-info.json:'')) (\<lambda>_.
      andThen (console_log (LogInfo info)) (\<lambda>_.
      ok info))))))))) s))"

section \<open>The settlement executor\<close>

text \<open>
  Modelled from the spec: the settlement executor, that is the on-ledger program of this
  repository together with the asset ledger it calls. Its source is not among the files;
  the scripts only submit transactions to it. The definitions of this section follow
  sections 3, 4.3, 4.4, 5 and 7 of the specification.
\<close>

text \<open>Modelled from the spec: the error taxonomy (a) to (e) of section 7.\<close>

datatype failure =
    DerivationError
  | DuplicateInitialization
  | PreconditionViolation
  | AuthorizationError
  | TransientSubmissionError

text \<open>
  Modelled from the spec: the data model of section 3. An absent record is a vault in
  state Absent, respectively an agreement in state Uninitialized.
\<close>

record asset_descriptor =
  d_decimals :: nat
  d_mint_authority :: PublicKey
  d_freeze_authority :: PublicKey

record holding =
  h_asset :: PublicKey
  h_owner :: PublicKey
  h_balance :: int

record vault =
  v_asset :: PublicKey
  v_authority :: PublicKey

datatype status = Active | Released

record agreement =
  a_vault :: PublicKey
  a_buyer :: PublicKey
  a_seller :: PublicKey
  a_amount :: int
  a_deadline :: int
  a_status :: status

record ledger =
  assets :: "PublicKey \<rightharpoonup> asset_descriptor"
  holdings :: "PublicKey \<rightharpoonup> holding"
  vaults :: "PublicKey \<rightharpoonup> vault"
  agreements :: "PublicKey \<rightharpoonup> agreement"
  clock :: int

text \<open>
  Modelled from the spec: an account entry co-signs when it is flagged as signer and its
  identity is among the signers of the transaction.
\<close>

definition cosigned :: "PublicKey list \<Rightarrow> AccountMeta \<Rightarrow> bool" where
  "cosigned signers m = (isSigner m \<and> pubkey m \<in> set signers)"

text \<open>
  Modelled from the spec: moving an amount between two holding accounts of the ledger
  (debit, then credit).
\<close>

definition move :: "PublicKey \<Rightarrow> PublicKey \<Rightarrow> int \<Rightarrow> (PublicKey \<rightharpoonup> holding) \<Rightarrow> (PublicKey \<rightharpoonup> holding)" where
  "move src dst amount hs =
     (case hs src of
        None \<Rightarrow> hs
      | Some s \<Rightarrow>
          let hs1 = hs(src \<mapsto> s\<lparr>h_balance := h_balance s - amount\<rparr>) in
          (case hs1 dst of
             None \<Rightarrow> hs1
           | Some d \<Rightarrow> hs1(dst \<mapsto> d\<lparr>h_balance := h_balance d + amount\<rparr>)))"

text \<open>
  Modelled from the spec: Vault-Init (section 4.3). Accounts: authority (signer), asset,
  vault, system allocator. Re-invoking on an Initialized vault fails with the
  duplicate condition and leaves the state unchanged.
\<close>

definition vault_init :: "PublicKey list \<Rightarrow> AccountMeta list \<Rightarrow> ledger \<Rightarrow> failure + ledger" where
  "vault_init signers accts l =
     (if length accts \<noteq> 4 then Inl PreconditionViolation
      else
        let authority = accts ! 0; asset' = pubkey (accts ! 1); vault' = pubkey (accts ! 2) in
        if \<not> cosigned signers authority then Inl AuthorizationError
        else if vaults l vault' \<noteq> None then Inl DuplicateInitialization
        else Inr (l\<lparr>vaults := (vaults l)(vault' \<mapsto>
                    \<lparr>v_asset = asset', v_authority = pubkey authority\<rparr>)\<rparr>))"

text \<open>
  Modelled from the spec: Custody-Fund (section 4.3). Accounts: holder (signer), asset,
  vault, vault holding, holder holding, then three programs. The holder is the vault's
  authority and co-signs; the vault's holding account exists; the holder holds at least
  the amount in its own account. The amount moves from the holder's account to the
  vault's.
\<close>

definition custody_fund ::
  "PublicKey list \<Rightarrow> AccountMeta list \<Rightarrow> int \<Rightarrow> ledger \<Rightarrow> failure + ledger" where
  "custody_fund signers accts amount l =
     (if length accts \<noteq> 8 then Inl PreconditionViolation
      else
        let holder = accts ! 0; vault' = pubkey (accts ! 2);
            vaultHolding = pubkey (accts ! 3); holderHolding = pubkey (accts ! 4) in
        if \<not> cosigned signers holder then Inl AuthorizationError
        else
          (case (vaults l vault', holdings l vaultHolding, holdings l holderHolding) of
             (Some v, Some vh, Some hh) \<Rightarrow>
               if v_authority v \<noteq> pubkey holder then Inl AuthorizationError
               else if h_owner vh \<noteq> vault' then Inl AuthorizationError
               else if h_owner hh \<noteq> pubkey holder then Inl AuthorizationError
               else if h_balance hh < amount then Inl PreconditionViolation
               else Inr (l\<lparr>holdings := move holderHolding vaultHolding amount (holdings l)\<rparr>)
           | _ \<Rightarrow> Inl PreconditionViolation))"

text \<open>
  Modelled from the spec: Agreement-Init (section 4.4). Accounts: buyer (signer), seller,
  asset, vault, agreement, system allocator. The buyer co-signs and is the vault's
  authority; the agreement is Uninitialized; the amount is at most the vault's current
  holdings (the balance of the holding account of the pair (asset, vault), found with
  \<open>holdingOf\<close>); the deadline is strictly after the ledger's clock. The agreement
  becomes Active with the amount and the deadline bound.
\<close>

definition agreement_init ::
  "(PublicKey \<Rightarrow> PublicKey \<Rightarrow> PublicKey option) \<Rightarrow> PublicKey list \<Rightarrow> AccountMeta list \<Rightarrow>
   int \<Rightarrow> int \<Rightarrow> ledger \<Rightarrow> failure + ledger" where
  "agreement_init holdingOf signers accts amount deadline l =
     (if length accts \<noteq> 6 then Inl PreconditionViolation
      else
        let buyer = accts ! 0; seller = pubkey (accts ! 1); asset' = pubkey (accts ! 2);
            vault' = pubkey (accts ! 3); agreement' = pubkey (accts ! 4) in
        if \<not> cosigned signers buyer then Inl AuthorizationError
        else if agreements l agreement' \<noteq> None then Inl DuplicateInitialization
        else
          (case vaults l vault' of
             None \<Rightarrow> Inl PreconditionViolation
           | Some v \<Rightarrow>
               if v_authority v \<noteq> pubkey buyer then Inl AuthorizationError
               else
                 (case holdingOf asset' vault' of
                    None \<Rightarrow> Inl DerivationError
                  | Some addr \<Rightarrow>
                      (case holdings l addr of
                         None \<Rightarrow> Inl PreconditionViolation
                       | Some vh \<Rightarrow>
                           if h_balance vh < amount then Inl PreconditionViolation
                           else if deadline \<le> clock l then Inl PreconditionViolation
                           else Inr (l\<lparr>agreements := (agreements l)(agreement' \<mapsto>
                                  \<lparr>a_vault = vault', a_buyer = pubkey buyer, a_seller = seller,
                                   a_amount = amount, a_deadline = deadline,
                                   a_status = Active\<rparr>)\<rparr>)))))"

text \<open>
  Modelled from the spec: Release (section 4.4). Accounts: buyer (signer), seller, asset,
  agreement, vault, vault holding, seller holding, then three programs. The buyer is the
  sole co-signer required and is checked against the agreement record; the agreement is
  Active; both holding accounts exist. Exactly the locked amount moves from the vault's
  holding account to the seller's and the agreement becomes Released.
\<close>

definition release :: "PublicKey list \<Rightarrow> AccountMeta list \<Rightarrow> ledger \<Rightarrow> failure + ledger" where
  "release signers accts l =
     (if length accts \<noteq> 10 then Inl PreconditionViolation
      else
        let buyer = accts ! 0; seller = pubkey (accts ! 1); agreement' = pubkey (accts ! 3);
            vault' = pubkey (accts ! 4); vaultHolding = pubkey (accts ! 5);
            sellerHolding = pubkey (accts ! 6) in
        if \<not> cosigned signers buyer then Inl AuthorizationError
        else
          (case (agreements l agreement', holdings l vaultHolding, holdings l sellerHolding) of
             (Some a, Some vh, Some sh) \<Rightarrow>
               if a_buyer a \<noteq> pubkey buyer then Inl AuthorizationError
               else if a_seller a \<noteq> seller then Inl AuthorizationError
               else if a_vault a \<noteq> vault' then Inl AuthorizationError
               else if a_status a \<noteq> Active then Inl PreconditionViolation
               else if h_owner vh \<noteq> vault' then Inl AuthorizationError
               else if h_owner sh \<noteq> seller then Inl AuthorizationError
               else if h_balance vh < a_amount a then Inl PreconditionViolation
               else Inr (l\<lparr>holdings := move vaultHolding sellerHolding (a_amount a) (holdings l),
                           agreements := (agreements l)(agreement' \<mapsto> a\<lparr>a_status := Released\<rparr>)\<rparr>)
           | _ \<Rightarrow> Inl PreconditionViolation))"

text \<open>
  Modelled from the spec: dispatch of an encoded instruction on its selector, the first
  8 bytes of the payload (section 4.2); the arguments follow at their fixed widths.
\<close>

definition settle_encoded ::
  "(string \<Rightarrow> Buffer) \<Rightarrow> (PublicKey \<Rightarrow> PublicKey \<Rightarrow> PublicKey option) \<Rightarrow> PublicKey list \<Rightarrow>
   TransactionInstruction \<Rightarrow> ledger \<Rightarrow> failure + ledger" where
  "settle_encoded selector holdingOf signers ix l =
     (let sel = take 8 (data ix) in
      if sel = selector ''init_vault'' then vault_init signers (keys ix) l
      else if sel = selector ''lock_tokens'' then
        (case (readBigUInt64LE (data ix) 8 :: unit error + int) of
           Inl _ \<Rightarrow> Inl PreconditionViolation
         | Inr amount \<Rightarrow> custody_fund signers (keys ix) amount l)
      else if sel = selector ''init_escrow'' then
        (case (readBigUInt64LE (data ix) 8 :: unit error + int,
               readBigInt64LE (data ix) 16 :: unit error + int) of
           (Inr amount, Inr deadline) \<Rightarrow>
             agreement_init holdingOf signers (keys ix) amount deadline l
         | _ \<Rightarrow> Inl PreconditionViolation)
      else if sel = selector ''release_to_seller'' then release signers (keys ix) l
      else Inl PreconditionViolation)"

text \<open>
  Modelled from the spec: the asset ledger's capabilities (section 6): initialising an
  asset descriptor, creating the holding account of an owner (which fails with the
  duplicate condition when it exists), and minting by the mint authority. Allocating an
  account changes nothing in the asset ledger.
\<close>

definition settle_instruction ::
  "(string \<Rightarrow> Buffer) \<Rightarrow> (PublicKey \<Rightarrow> PublicKey \<Rightarrow> PublicKey option) \<Rightarrow> PublicKey list \<Rightarrow>
   instruction \<Rightarrow> ledger \<Rightarrow> failure + ledger" where
  "settle_instruction selector holdingOf signers i l =
     (case i of
        Encoded ix \<Rightarrow> settle_encoded selector holdingOf signers ix l
      | CreateAccount from' new lamports space' prog \<Rightarrow>
          if from' \<in> set signers \<and> new \<in> set signers then Inr l else Inl AuthorizationError
      | InitializeMint2 mint decimals mintAuthority freezeAuthority \<Rightarrow>
          if assets l mint \<noteq> None then Inl DuplicateInitialization
          else Inr (l\<lparr>assets := (assets l)(mint \<mapsto>
                 \<lparr>d_decimals = decimals, d_mint_authority = mintAuthority,
                  d_freeze_authority = freezeAuthority\<rparr>)\<rparr>)
      | CreateAssociatedTokenAccount payer' ata owner' mint tokenProg ataProg \<Rightarrow>
          if payer' \<notin> set signers then Inl AuthorizationError
          else if holdings l ata \<noteq> None then Inl DuplicateInitialization
          else Inr (l\<lparr>holdings := (holdings l)(ata \<mapsto>
                 \<lparr>h_asset = mint, h_owner = owner', h_balance = 0\<rparr>)\<rparr>)
      | MintTo mint dest authority amount tokenProg \<Rightarrow>
          (case (assets l mint, holdings l dest) of
             (Some d, Some h) \<Rightarrow>
               if authority \<notin> set signers then Inl AuthorizationError
               else if d_mint_authority d \<noteq> authority then Inl AuthorizationError
               else if h_asset h \<noteq> mint then Inl PreconditionViolation
               else Inr (l\<lparr>holdings := (holdings l)(dest \<mapsto>
                      h\<lparr>h_balance := h_balance h + amount\<rparr>)\<rparr>)
           | _ \<Rightarrow> Inl PreconditionViolation))"

text \<open>
  Modelled from the spec: a transaction is one atomic unit (section 5): its instructions
  apply in order, and if one fails the ledger is unchanged.
\<close>

fun settle_all ::
  "(string \<Rightarrow> Buffer) \<Rightarrow> (PublicKey \<Rightarrow> PublicKey \<Rightarrow> PublicKey option) \<Rightarrow> PublicKey list \<Rightarrow>
   instruction list \<Rightarrow> ledger \<Rightarrow> failure + ledger" where
  "settle_all selector holdingOf signers [] l = Inr l"
| "settle_all selector holdingOf signers (i # is) l =
     (case settle_instruction selector holdingOf signers i l of
        Inl f \<Rightarrow> Inl f
      | Inr l' \<Rightarrow> settle_all selector holdingOf signers is l')"

definition settle ::
  "(string \<Rightarrow> Buffer) \<Rightarrow> (PublicKey \<Rightarrow> PublicKey \<Rightarrow> PublicKey option) \<Rightarrow>
   ledger \<Rightarrow> Transaction \<Rightarrow> PublicKey list \<Rightarrow> (failure + string) \<times> ledger" where
  "settle selector holdingOf l tx signers =
     (case settle_all selector holdingOf signers tx l of
        Inl f \<Rightarrow> (Inl f, l)
      | Inr l' \<Rightarrow> (Inr ''signature'', l'))"

text \<open>
  The holding-account address that the executor uses for a pair (asset, owner) is the one
  the client library computes, with owners off the curve allowed.
\<close>

definition holding_address ::
  "('w, 'e, 'z) env_scheme \<Rightarrow> PublicKey \<Rightarrow> PublicKey \<Rightarrow> PublicKey option" where
  "holding_address E asset' owner' =
     getAssociatedTokenAddress E asset' owner' True
       (TOKEN_PROGRAM_ID E) (ASSOCIATED_TOKEN_PROGRAM_ID E)"

section \<open>A concrete instance of the parameters\<close>

text \<open>
  The theorems below hold for every hash, derivation, program identity, ledger and clock.
  To evaluate the model on concrete inputs, this section fixes one instance of each
  parameter. The identity \<open>key n\<close> is the byte \<open>n\<close> repeated 32 times. The
  stand-in for the hash keeps the first 32 bytes of the reversed input, the stand-in for
  the derivation the first 32 bytes of the concatenated seeds, both padded with zeros.
\<close>

definition key :: "nat \<Rightarrow> PublicKey" where
  "key n = PublicKey (replicate 32 (of_nat n))"

definition first32 :: "Buffer \<Rightarrow> Buffer" where
  "first32 bs = take 32 (bs @ replicate 32 0)"

definition derive0 :: "Buffer list \<Rightarrow> PublicKey \<Rightarrow> (PublicKey \<times> nat) option" where
  "derive0 seeds pid = Some (PublicKey (first32 (concat seeds)), 255)"

definition pad32 :: "Buffer \<Rightarrow> Buffer" where
  "pad32 bs = take 32 (rev bs @ replicate 32 0)"

definition lib0 :: lib where
  "lib0 =
     \<lparr> sha256 = (\<lambda>bs. Sha256Digest (pad32 bs)),
       findProgramAddress = derive0,
       TOKEN_PROGRAM_ID = key 6,
       ASSOCIATED_TOKEN_PROGRAM_ID = key 7,
       SystemProgram_programId = key 0 \<rparr>"

text \<open>Sample arguments of the two encoders that take numbers.\<close>

definition lock0 :: LockTokensParams where
  "lock0 =
     \<lparr> lt_programId = key 1, lt_user = key 2, lt_mint = key 3, lt_vaultPda = key 4,
       lt_vaultAta = key 5, lt_userAta = key 8, lt_amount = 100000 \<rparr>"

definition escrow0 :: InitEscrowParams where
  "escrow0 =
     \<lparr> ie_programId = key 1, ie_buyer = key 2, ie_seller = key 9, ie_mint = key 3,
       ie_vault = key 4, ie_escrow = key 10, ie_amount = 50000,
       ie_deadlineUnixTs = 1700003600 \<rparr>"

text \<open>
  The stand-ins of the run environment: identities are printed and parsed byte for
  character (a string of fewer than 32 characters is no identity), the holding-account
  address of an owner is the owner's bytes plus 128, the
  local wallet is \<open>key 2\<close>, the generated key pair is \<open>key 3\<close> (the mint of the first
  script) or \<open>key 9\<close> (the seller of the third), and the clock stands at 1700000000
  seconds. \<open>env0\<close> and \<open>env3\<close> submit to the settlement executor of the previous
  section; \<open>env_flaky\<close> submits to a ledger that rejects the first transaction it
  receives with a transient failure and accepts every later one.
\<close>

definition parse0 :: "string \<Rightarrow> PublicKey option" where
  "parse0 s =
     (if length s < 32 then None else Some (PublicKey (first32 (Buffer_from s))))"

definition print0 :: "PublicKey \<Rightarrow> string" where
  "print0 k = map (\<lambda>b. char_of (unat b)) (toBuffer k)"

definition ata0 :: "PublicKey \<Rightarrow> PublicKey \<Rightarrow> bool \<Rightarrow> PublicKey \<Rightarrow> PublicKey \<Rightarrow> PublicKey option" where
  "ata0 mint owner' allow tp ap = Some (PublicKey (map (\<lambda>b. b + 128) (toBuffer owner')))"

definition env_with ::
  "('w \<Rightarrow> Transaction \<Rightarrow> PublicKey list \<Rightarrow> ('e + string) \<times> 'w) \<Rightarrow> ('w, 'e) env" where
  "env_with submit =
     \<lparr> sha256 = sha256 lib0,
       findProgramAddress = findProgramAddress lib0,
       TOKEN_PROGRAM_ID = TOKEN_PROGRAM_ID lib0,
       ASSOCIATED_TOKEN_PROGRAM_ID = ASSOCIATED_TOKEN_PROGRAM_ID lib0,
       SystemProgram_programId = SystemProgram_programId lib0,
       new_PublicKey = parse0,
       toBase58 = print0,
       getAssociatedTokenAddress = ata0,
       payer_publicKey = key 2,
       sendAndConfirmTransaction = submit,
       Date_now = 1700000000000,
       Keypair_generate = key 3,
       getMinimumBalanceForRentExemptMint = (\<lambda>w. 1461600),
       MINT_SIZE = 82 \<rparr>"

definition env0 :: "(ledger, failure) env" where
  "env0 = env_with (settle (discriminator lib0) (\<lambda>a w. ata0 a w True (key 6) (key 7)))"

definition flaky :: "nat \<Rightarrow> Transaction \<Rightarrow> PublicKey list \<Rightarrow> (failure + string) \<times> nat" where
  "flaky n tx signers =
     (if n = 0 then Inl TransientSubmissionError else Inr ''signature'', n + 1)"

definition ledger0 :: ledger where
  "ledger0 = \<lparr>assets = Map.empty, holdings = Map.empty, vaults = Map.empty,
     agreements = Map.empty, clock = 1700000000\<rparr>"

definition pid0 :: PublicKey where
  "pid0 = PublicKey (first32 (Buffer_from ''AhtmyF1FM2NwGYECDzgjC6jbNtPnSRDFzhahugFfqkZW''))"

definition vaultPda0 :: PublicKey where
  "vaultPda0 = PublicKey (Buffer_from ''vault'' @ replicate 27 3)"

definition escrowPda0 :: PublicKey where
  "escrowPda0 = PublicKey (Buffer_from ''escrow'' @ Buffer_from ''vault'' @ replicate 21 3)"

definition vaultAta0 :: PublicKey where
  "vaultAta0 = PublicKey (map (\<lambda>b. b + 128) (Buffer_from ''vault'' @ replicate 27 3))"

definition info0 :: deploy_info where
  "info0 =
     \<lparr> info_programId = ''AhtmyF1FM2NwGYECDzgjC6jbNtPnSRDFzhahugFfqkZW'',
       info_mint = print0 (key 3),
       info_payer = print0 (key 2),
       info_payerAta = print0 (key 130),
       info_decimals = 6,
       info_tokenName = ''Goblin Gold'' \<rparr>"

definition ledger1 :: ledger where
  "ledger1 = ledger0
     \<lparr>holdings := [vaultAta0 \<mapsto> \<lparr>h_asset = key 3, h_owner = vaultPda0, h_balance = 0\<rparr>],
      vaults := [vaultPda0 \<mapsto> \<lparr>v_asset = key 3, v_authority = key 2\<rparr>]\<rparr>"

definition env3 :: "(ledger, failure) env" where
  "env3 = env0\<lparr>Keypair_generate := key 9\<rparr>"

definition env_flaky :: "(nat, failure) env" where
  "env_flaky = env_with flaky"

section \<open>Lemmas on bytes and words\<close>

lemma length_pad32: "length (pad32 bs) = 32"
  by (simp add: pad32_def)

lemma toBuffer_key: "toBuffer (key n) = replicate 32 (of_nat n)"
  by (simp add: key_def PublicKey_inverse)

lemma length_toBuffer: "length (toBuffer k) = 32"
  using toBuffer [of k] by simp

lemma length_digest: "length (digest d) = 32"
  using digest [of d] by simp

lemma length_discriminator: "length (discriminator L n) = 8"
  by (simp add: discriminator_def subarray_def length_digest)

lemma mask32_numeral: "(0xffffffff :: int) = mask 32"
  by (simp add: mask_eq_exp_minus_1)

lemma upt8: "[0..<8] = [0, 1, 2, 3, 4, 5, 6, 7]"
  by (simp add: upt_rec)

lemma low_half_byte:
  "i \<le> 24 \<Longrightarrow> u8 (drop_bit i (v AND 0xffffffff)) = ucast (drop_bit i (word_of_int v :: 64 word))"
  unfolding u8_def mask32_numeral
  by (rule bit_word_eqI) (auto simp add: bit_simps)

lemma high_half_byte:
  "i \<le> 24 \<Longrightarrow>
   u8 (drop_bit i (drop_bit 32 v AND 0xffffffff)) = ucast (drop_bit (32 + i) (word_of_int v :: 64 word))"
  unfolding u8_def mask32_numeral
  by (rule bit_word_eqI) (auto simp add: bit_simps ac_simps)

lemma writeBigU_Int64LE_le64:
  assumes "length buf = 8" "mn \<le> v" "v \<le> mx"
  shows "writeBigU_Int64LE buf v 0 mn mx = Inr (le64 (word_of_int v))"
  using assms
    low_half_byte [of 0 v] low_half_byte [of 8 v] low_half_byte [of 16 v] low_half_byte [of 24 v]
    high_half_byte [of 0 v] high_half_byte [of 8 v] high_half_byte [of 16 v]
    high_half_byte [of 24 v]
  by (simp add: writeBigU_Int64LE_def le64_def upt8 Let_def)

lemma writeBigUInt64LE_in_range:
  "0 \<le> v \<Longrightarrow> v < 2 ^ 64 \<Longrightarrow>
   writeBigUInt64LE (Buffer_alloc 8) v 0 = Inr (le64 (word_of_int v))"
  by (simp add: writeBigUInt64LE_def Buffer_alloc_def writeBigU_Int64LE_le64)

lemma writeBigInt64LE_in_range:
  "- (2 ^ 63) \<le> v \<Longrightarrow> v < 2 ^ 63 \<Longrightarrow>
   writeBigInt64LE (Buffer_alloc 8) v 0 = Inr (le64 (word_of_int v))"
  by (simp add: writeBigInt64LE_def Buffer_alloc_def writeBigU_Int64LE_le64)

lemma writeBigUInt64LE_out_of_range:
  "v < 0 \<or> 2 ^ 64 \<le> v \<Longrightarrow> writeBigUInt64LE buf v off = Inl ERR_OUT_OF_RANGE"
  by (auto simp add: writeBigUInt64LE_def writeBigU_Int64LE_def)

lemma writeBigInt64LE_out_of_range:
  "v < - (2 ^ 63) \<or> 2 ^ 63 \<le> v \<Longrightarrow> writeBigInt64LE buf v off = Inl ERR_OUT_OF_RANGE"
  by (auto simp add: writeBigInt64LE_def writeBigU_Int64LE_def)

lemma length_le64: "length (le64 w) = 8"
  by (simp add: le64_def)

lemma uint_drop_bit64: "uint (drop_bit k (w :: 64 word)) = uint w div 2 ^ k"
proof -
  have "take_bit 64 (uint w) = uint w"
    by (rule take_bit_int_eq_self) (use uint_lt2p [of w] in simp_all)
  then show ?thesis
    unfolding unsigned_drop_bit_eq by (simp add: drop_bit_eq_div)
qed

lemma div_step: "y div 2 ^ k = y div 2 ^ k mod 256 + 256 * (y div 2 ^ (k + 8))"
  for y :: int and k :: nat
proof -
  have "y div 2 ^ (k + 8) = (y div 2 ^ k) div 256"
    by (simp add: power_add zdiv_zmult2_eq)
  then show ?thesis by simp
qed

lemma le_sum_digits:
  fixes x0 :: int
  assumes "x0 = a0 + 256 * x1" "x1 = a1 + 256 * x2" "x2 = a2 + 256 * x3" "x3 = a3 + 256 * x4"
    "x4 = a4 + 256 * x5" "x5 = a5 + 256 * x6" "x6 = a6 + 256 * x7" "x7 = a7 + 256 * x8" "x8 = 0"
  shows "a0 + a1 * 2 ^ 8 + a2 * 2 ^ 16 + a3 * 2 ^ 24
     + push_bit 32 (a4 + a5 * 2 ^ 8 + a6 * 2 ^ 16 + a7 * 2 ^ 24) = x0"
  using assms by (simp add: push_bit_eq_mult)

lemma le_sum:
  fixes x :: int
  assumes "0 \<le> x" "x < 2 ^ 64"
  shows "x mod 256 + (x div 2 ^ 8 mod 256) * 2 ^ 8 + (x div 2 ^ 16 mod 256) * 2 ^ 16
     + (x div 2 ^ 24 mod 256) * 2 ^ 24
     + push_bit 32 (x div 2 ^ 32 mod 256 + (x div 2 ^ 40 mod 256) * 2 ^ 8
         + (x div 2 ^ 48 mod 256) * 2 ^ 16 + (x div 2 ^ 56 mod 256) * 2 ^ 24) = x"
proof (rule le_sum_digits)
  show "x = x mod 256 + 256 * (x div 2 ^ 8)" using div_step [of x 0] by simp
  show "x div 2 ^ 8 = x div 2 ^ 8 mod 256 + 256 * (x div 2 ^ 16)" using div_step [of x 8] by simp
  show "x div 2 ^ 16 = x div 2 ^ 16 mod 256 + 256 * (x div 2 ^ 24)" using div_step [of x 16] by simp
  show "x div 2 ^ 24 = x div 2 ^ 24 mod 256 + 256 * (x div 2 ^ 32)" using div_step [of x 24] by simp
  show "x div 2 ^ 32 = x div 2 ^ 32 mod 256 + 256 * (x div 2 ^ 40)" using div_step [of x 32] by simp
  show "x div 2 ^ 40 = x div 2 ^ 40 mod 256 + 256 * (x div 2 ^ 48)" using div_step [of x 40] by simp
  show "x div 2 ^ 48 = x div 2 ^ 48 mod 256 + 256 * (x div 2 ^ 56)" using div_step [of x 48] by simp
  show "x div 2 ^ 56 = x div 2 ^ 56 mod 256 + 256 * (x div 2 ^ 64)" using div_step [of x 56] by simp
  show "x div 2 ^ 64 = 0" using assms by simp
qed

lemma readBigUInt64LE_le64_0: "readBigUInt64LE (le64 w) 0 = Inr (uint w)"
proof -
  have "uint w < 2 ^ 64" using uint_lt2p [of w] by simp
  then show ?thesis
    using le_sum [of "uint w"]
    by (simp add: readBigUInt64LE_def le64_def upt8 uint_drop_bit64 unsigned_ucast_eq
        take_bit_eq_mod Let_def)
qed

lemma readBigUInt64LE_shift:
  "off + 8 \<le> length bs \<Longrightarrow>
   readBigUInt64LE (pre @ bs) (length pre + off) = readBigUInt64LE bs off"
  by (simp add: readBigUInt64LE_def nth_append add.assoc)

lemma readBigUInt64LE_prefix:
  "length bs = 8 \<Longrightarrow> readBigUInt64LE (bs @ post) 0 = readBigUInt64LE bs 0"
  by (simp add: readBigUInt64LE_def nth_append)

lemma readBigUInt64LE_le64:
  "length pre = off \<Longrightarrow> readBigUInt64LE (pre @ le64 w @ post) off = Inr (uint w)"
  using readBigUInt64LE_shift [of 0 "le64 w @ post" pre]
  by (simp add: readBigUInt64LE_prefix length_le64 readBigUInt64LE_le64_0)

lemma sint64: "sint (w :: 64 word) = (if uint w < 2 ^ 63 then uint w else uint w - 2 ^ 64)"
proof -
  have lt: "uint w < 2 ^ 64" using uint_lt2p [of w] by simp
  have ge: "0 \<le> uint w" by simp
  show ?thesis
  proof (cases "uint w < 2 ^ 63")
    case True
    then have "(uint w + 2 ^ 63) mod 2 ^ 64 = uint w + 2 ^ 63"
      using ge by (intro mod_pos_pos_trivial) simp_all
    with True show ?thesis
      unfolding sint_uint signed_take_bit_eq_take_bit_shift take_bit_eq_mod by simp
  next
    case False
    have "(uint w + 2 ^ 63) mod 2 ^ 64 = (uint w - 2 ^ 63 + 2 ^ 64) mod 2 ^ 64"
      by (simp add: algebra_simps)
    also have "\<dots> = (uint w - 2 ^ 63) mod 2 ^ 64"
      by (simp only: mod_add_self2)
    also have "\<dots> = uint w - 2 ^ 63"
      using False lt by (intro mod_pos_pos_trivial) simp_all
    finally show ?thesis using False
      unfolding sint_uint signed_take_bit_eq_take_bit_shift take_bit_eq_mod by simp
  qed
qed

lemma readBigInt64LE_le64:
  "length pre = off \<Longrightarrow> readBigInt64LE (pre @ le64 w @ post) off = Inr (sint w)"
  by (simp add: readBigInt64LE_def readBigUInt64LE_le64 sint64)

lemma uint_in_range: "0 \<le> v \<Longrightarrow> v < 2 ^ 64 \<Longrightarrow> uint (word_of_int v :: 64 word) = v"
  by (simp add: uint_word_of_int take_bit_eq_mod)

lemma sint_in_range:
  "- (2 ^ 63) \<le> v \<Longrightarrow> v < 2 ^ 63 \<Longrightarrow> sint (word_of_int v :: 64 word) = v"
  by (simp add: sint_sbintrunc' signed_take_bit_int_eq_self)

section \<open>Properties of the codec\<close>

text \<open>
  C1. The account list of the release instruction is, in order: buyer (signer, writable),
  seller (writable), mint (read-only), escrow (writable), vault (read-only), vault holding
  (writable), seller holding (writable), then the token program, the associated-token
  program and the system program (read-only). The buyer entry is the only one flagged as
  signer; the seller entry is not.
\<close>

theorem release_account_list:
  "keys (encodeReleaseToSellerIx L p) =
     [ \<lparr>pubkey = rs_buyer p, isSigner = True, isWritable = True\<rparr>,
       \<lparr>pubkey = rs_seller p, isSigner = False, isWritable = True\<rparr>,
       \<lparr>pubkey = rs_mint p, isSigner = False, isWritable = False\<rparr>,
       \<lparr>pubkey = rs_escrow p, isSigner = False, isWritable = True\<rparr>,
       \<lparr>pubkey = rs_vault p, isSigner = False, isWritable = False\<rparr>,
       \<lparr>pubkey = rs_vaultAta p, isSigner = False, isWritable = True\<rparr>,
       \<lparr>pubkey = rs_sellerAta p, isSigner = False, isWritable = True\<rparr>,
       \<lparr>pubkey = TOKEN_PROGRAM_ID L, isSigner = False, isWritable = False\<rparr>,
       \<lparr>pubkey = ASSOCIATED_TOKEN_PROGRAM_ID L, isSigner = False, isWritable = False\<rparr>,
       \<lparr>pubkey = SystemProgram_programId L, isSigner = False, isWritable = False\<rparr> ]
   \<and> map isSigner (keys (encodeReleaseToSellerIx L p)) =
       [True, False, False, False, False, False, False, False, False, False]
   \<and> filter isSigner (keys (encodeReleaseToSellerIx L p)) =
       [\<lparr>pubkey = rs_buyer p, isSigner = True, isWritable = True\<rparr>]
   \<and> isSigner (keys (encodeReleaseToSellerIx L p) ! 1) = False"
  by (simp add: encodeReleaseToSellerIx_def Let_def)

text \<open>
  C2. The vault address is derived from exactly the seeds \<open>"vault"\<close> (the five bytes
  76 61 75 6c 74), the 32 bytes of the mint and the 32 bytes of the authority, in this
  order, under the given program identity. The result depends on nothing else: two
  environments with the same derivation function give the same address and bump.
\<close>

theorem vault_address_seeds:
  "deriveVaultPda L pid mint authority =
     findProgramAddress L
       [[0x76, 0x61, 0x75, 0x6c, 0x74], toBuffer mint, toBuffer authority] pid
   \<and> map length [Buffer_from ''vault'', toBuffer mint, toBuffer authority] = [5, 32, 32]
   \<and> (findProgramAddress L = findProgramAddress L' \<longrightarrow>
        deriveVaultPda L pid mint authority = deriveVaultPda L' pid mint authority)"
  by (simp add: deriveVaultPda_def Buffer_from_def length_toBuffer)

theorem vault_address_seeds_witness:
  "findProgramAddress lib0 = findProgramAddress (lib0\<lparr>TOKEN_PROGRAM_ID := key 9\<rparr>)
   \<and> deriveVaultPda lib0 (key 1) (key 2) (key 3) =
       deriveVaultPda (lib0\<lparr>TOKEN_PROGRAM_ID := key 9\<rparr>) (key 1) (key 2) (key 3)
   \<and> deriveVaultPda lib0 (key 1) (key 2) (key 3) =
       findProgramAddress lib0
         [[0x76, 0x61, 0x75, 0x6c, 0x74], toBuffer (key 2), toBuffer (key 3)] (key 1)"
  using vault_address_seeds [of lib0 "key 1" "key 2" "key 3" "lib0\<lparr>TOKEN_PROGRAM_ID := key 9\<rparr>"]
  by (simp add: deriveVaultPda_def)

text \<open>
  C3. The agreement address is derived from exactly the seeds \<open>"escrow"\<close>, vault, buyer
  and seller, in this order. The concatenation of these seeds, which is what the
  derivation hashes, determines the three identities: two seed strings are equal exactly
  when vault, buyer and seller are all equal, so inputs that differ in any one of them
  feed different bytes to the derivation.
\<close>

theorem escrow_address_seeds:
  "deriveEscrowPda L pid v b s =
     findProgramAddress L
       [[0x65, 0x73, 0x63, 0x72, 0x6f, 0x77], toBuffer v, toBuffer b, toBuffer s] pid
   \<and> map length [Buffer_from ''escrow'', toBuffer v, toBuffer b, toBuffer s] = [6, 32, 32, 32]
   \<and> (concat [Buffer_from ''escrow'', toBuffer v, toBuffer b, toBuffer s] =
        concat [Buffer_from ''escrow'', toBuffer v', toBuffer b', toBuffer s'])
       = (v = v' \<and> b = b' \<and> s = s')"
  by (simp add: deriveEscrowPda_def Buffer_from_def length_toBuffer toBuffer_inject)

text \<open>
  C4. The selector of an operation is the first 8 bytes of the SHA-256 digest of
  \<open>"global:"\<close> followed by the operation's name; it is always exactly 8 bytes long and
  a function of the name and the hash alone. Each encoder puts the selector of its
  operation in the first 8 bytes of the payload.
\<close>

theorem selector_is_hash_prefix:
  "discriminator L n = take 8 (digest (sha256 L (Buffer_from ''global:'' @ Buffer_from n)))
   \<and> length (discriminator L n) = 8
   \<and> (sha256 L = sha256 L' \<longrightarrow> discriminator L n = discriminator L' n)
   \<and> take 8 (data (encodeInitVaultIx L pv)) = discriminator L ''init_vault''
   \<and> take 8 (data (encodeReleaseToSellerIx L pr)) = discriminator L ''release_to_seller''
   \<and> (\<forall>ix. encodeLockTokensIx L pl = (Inr ix :: 'e error + TransactionInstruction) \<longrightarrow>
         take 8 (data ix) = discriminator L ''lock_tokens'')
   \<and> (\<forall>ix. encodeInitEscrowIx L pe = (Inr ix :: 'e error + TransactionInstruction) \<longrightarrow>
         take 8 (data ix) = discriminator L ''init_escrow'')"
proof -
  have d: "discriminator L n = take 8 (digest (sha256 L (Buffer_from ''global:'' @ Buffer_from n)))"
    by (simp add: discriminator_def subarray_def Buffer_from_def)
  have v: "take 8 (data (encodeInitVaultIx L pv)) = discriminator L ''init_vault''"
    by (simp add: encodeInitVaultIx_def Let_def length_discriminator)
  have r: "take 8 (data (encodeReleaseToSellerIx L pr)) = discriminator L ''release_to_seller''"
    by (simp add: encodeReleaseToSellerIx_def Let_def length_discriminator)
  have l: "take 8 (data ix) = discriminator L ''lock_tokens''"
    if "encodeLockTokensIx L pl = (Inr ix :: 'e error + TransactionInstruction)" for ix
    using that
    by (auto simp add: encodeLockTokensIx_def Let_def Buffer_concat_def length_discriminator
        split: sum.splits)
  have e: "take 8 (data ix) = discriminator L ''init_escrow''"
    if "encodeInitEscrowIx L pe = (Inr ix :: 'e error + TransactionInstruction)" for ix
    using that
    by (auto simp add: encodeInitEscrowIx_def Let_def Buffer_concat_def length_discriminator
        split: sum.splits)
  have s: "discriminator L n = discriminator L' n" if "sha256 L = sha256 L'"
    using that by (simp add: discriminator_def)
  from d v r l e s show ?thesis
    using length_discriminator [of L n] by simp
qed

theorem selector_is_hash_prefix_witness:
  "(\<exists>ix. encodeLockTokensIx lib0 lock0 = (Inr ix :: unit error + TransactionInstruction)
      \<and> take 8 (data ix) = discriminator lib0 ''lock_tokens'')
   \<and> (\<exists>ix. encodeInitEscrowIx lib0 escrow0 = (Inr ix :: unit error + TransactionInstruction)
      \<and> take 8 (data ix) = discriminator lib0 ''init_escrow'')
   \<and> sha256 lib0 = sha256 (lib0\<lparr>TOKEN_PROGRAM_ID := key 9\<rparr>)
   \<and> discriminator (lib0\<lparr>TOKEN_PROGRAM_ID := key 9\<rparr>) ''lock_tokens''
       = [0x73, 0x6e, 0x65, 0x6b, 0x6f, 0x74, 0x5f, 0x6b]"
proof -
  obtain ixl where l: "encodeLockTokensIx lib0 lock0 = (Inr ixl :: unit error + TransactionInstruction)"
    by (simp add: encodeLockTokensIx_def writeBigUInt64LE_in_range lock0_def Let_def)
  obtain ixe where e: "encodeInitEscrowIx lib0 escrow0 = (Inr ixe :: unit error + TransactionInstruction)"
    by (simp add: encodeInitEscrowIx_def writeBigUInt64LE_in_range writeBigInt64LE_in_range
        escrow0_def Let_def)
  have d: "discriminator lib0 ''lock_tokens'' = [0x73, 0x6e, 0x65, 0x6b, 0x6f, 0x74, 0x5f, 0x6b]"
    by (simp add: discriminator_def lib0_def Sha256Digest_inverse length_pad32 subarray_def)
      (simp add: pad32_def Buffer_from_def)
  note t = selector_is_hash_prefix [of lib0 "''lock_tokens''" "lib0\<lparr>TOKEN_PROGRAM_ID := key 9\<rparr>"
      undefined undefined lock0 escrow0, where ?'e = unit]
  have s: "sha256 lib0 = sha256 (lib0\<lparr>TOKEN_PROGRAM_ID := key 9\<rparr>)"
    by simp
  from t s have d': "discriminator lib0 ''lock_tokens''
      = discriminator (lib0\<lparr>TOKEN_PROGRAM_ID := key 9\<rparr>) ''lock_tokens''"
    by blast
  from t l have a1: "take 8 (data ixl) = discriminator lib0 ''lock_tokens''"
    by blast
  from t e have a2: "take 8 (data ixe) = discriminator lib0 ''init_escrow''"
    by blast
  from l a1 have c1: "\<exists>ix. encodeLockTokensIx lib0 lock0 = (Inr ix :: unit error + TransactionInstruction)
      \<and> take 8 (data ix) = discriminator lib0 ''lock_tokens''"
    by blast
  from e a2 have c2: "\<exists>ix. encodeInitEscrowIx lib0 escrow0 = (Inr ix :: unit error + TransactionInstruction)
      \<and> take 8 (data ix) = discriminator lib0 ''init_escrow''"
    by blast
  from d d' have c3: "discriminator (lib0\<lparr>TOKEN_PROGRAM_ID := key 9\<rparr>) ''lock_tokens''
       = [0x73, 0x6e, 0x65, 0x6b, 0x6f, 0x74, 0x5f, 0x6b]"
    by simp
  from c1 c2 s c3 show ?thesis
    by (intro conjI)
qed

text \<open>
  C5. For an amount in the unsigned 64-bit range, the \<open>lock_tokens\<close> payload is the
  8-byte selector followed by the amount as a 64-bit little-endian word, 16 bytes in all.
  For such an amount and a deadline in the signed 64-bit range, the \<open>init_escrow\<close>
  payload is the 8-byte selector, the amount as a 64-bit little-endian word and the
  deadline as a 64-bit little-endian two's complement word, 24 bytes in all. The lengths
  do not depend on the values.
\<close>

theorem payload_layout:
  assumes "0 \<le> lt_amount pl" "lt_amount pl < 2 ^ 64"
    and "0 \<le> ie_amount pe" "ie_amount pe < 2 ^ 64"
    and "- (2 ^ 63) \<le> ie_deadlineUnixTs pe" "ie_deadlineUnixTs pe < 2 ^ 63"
  shows "\<exists>ixl ixe.
     encodeLockTokensIx L pl = (Inr ixl :: 'e error + TransactionInstruction)
   \<and> data ixl = discriminator L ''lock_tokens'' @ le64 (word_of_int (lt_amount pl))
   \<and> length (data ixl) = 16
   \<and> uint (word_of_int (lt_amount pl) :: 64 word) = lt_amount pl
   \<and> encodeInitEscrowIx L pe = (Inr ixe :: 'e error + TransactionInstruction)
   \<and> data ixe = discriminator L ''init_escrow'' @ le64 (word_of_int (ie_amount pe))
        @ le64 (word_of_int (ie_deadlineUnixTs pe))
   \<and> length (data ixe) = 24
   \<and> uint (word_of_int (ie_amount pe) :: 64 word) = ie_amount pe
   \<and> sint (word_of_int (ie_deadlineUnixTs pe) :: 64 word) = ie_deadlineUnixTs pe"
  using assms
  by (simp add: encodeLockTokensIx_def encodeInitEscrowIx_def Let_def Buffer_concat_def
      writeBigUInt64LE_in_range writeBigInt64LE_in_range length_discriminator length_le64
      uint_in_range sint_in_range)

theorem payload_layout_witness:
  "(0::int) \<le> lt_amount lock0 \<and> lt_amount lock0 < 2 ^ 64
   \<and> 0 \<le> ie_amount escrow0 \<and> ie_amount escrow0 < 2 ^ 64
   \<and> - (2 ^ 63) \<le> ie_deadlineUnixTs escrow0 \<and> ie_deadlineUnixTs escrow0 < 2 ^ 63
   \<and> (\<exists>ixl ixe.
        encodeLockTokensIx lib0 lock0 = (Inr ixl :: unit error + TransactionInstruction)
      \<and> data ixl = [0x73, 0x6e, 0x65, 0x6b, 0x6f, 0x74, 0x5f, 0x6b]
            @ [0xa0, 0x86, 0x01, 0, 0, 0, 0, 0]
      \<and> encodeInitEscrowIx lib0 escrow0 = (Inr ixe :: unit error + TransactionInstruction)
      \<and> data ixe = [0x77, 0x6f, 0x72, 0x63, 0x73, 0x65, 0x5f, 0x74]
            @ [0x50, 0xc3, 0, 0, 0, 0, 0, 0] @ [0x10, 0xff, 0x53, 0x65, 0, 0, 0, 0])"
proof -
  have h: "0 \<le> lt_amount lock0" "lt_amount lock0 < 2 ^ 64"
    "0 \<le> ie_amount escrow0" "ie_amount escrow0 < 2 ^ 64"
    "- (2 ^ 63) \<le> ie_deadlineUnixTs escrow0" "ie_deadlineUnixTs escrow0 < 2 ^ 63"
    by (simp_all add: lock0_def escrow0_def)
  have dl: "discriminator lib0 ''lock_tokens'' = [0x73, 0x6e, 0x65, 0x6b, 0x6f, 0x74, 0x5f, 0x6b]"
    by (simp add: discriminator_def lib0_def Sha256Digest_inverse length_pad32 subarray_def)
      (simp add: pad32_def Buffer_from_def)
  have de: "discriminator lib0 ''init_escrow'' = [0x77, 0x6f, 0x72, 0x63, 0x73, 0x65, 0x5f, 0x74]"
    by (simp add: discriminator_def lib0_def Sha256Digest_inverse length_pad32 subarray_def)
      (simp add: pad32_def Buffer_from_def)
  have b1: "le64 (word_of_int (lt_amount lock0)) = [0xa0, 0x86, 0x01, 0, 0, 0, 0, 0]"
    by (simp add: lock0_def le64_def upt8 drop_bit_eq_div)
  have b2: "le64 (word_of_int (ie_amount escrow0)) = [0x50, 0xc3, 0, 0, 0, 0, 0, 0]"
    by (simp add: escrow0_def le64_def upt8 drop_bit_eq_div)
  have b3: "le64 (word_of_int (ie_deadlineUnixTs escrow0)) = [0x10, 0xff, 0x53, 0x65, 0, 0, 0, 0]"
    by (simp add: escrow0_def le64_def upt8 drop_bit_eq_div)
  from payload_layout [OF h, of lib0, where ?'e = unit] h dl de b1 b2 b3
  show ?thesis by simp blast
qed

text \<open>
  C10. The encoders do not truncate. \<open>encodeLockTokensIx\<close> and \<open>encodeInitEscrowIx\<close>
  throw a range error, and build no instruction, when the amount is negative or at least
  \<open>2 ^ 64\<close>; \<open>encodeInitEscrowIx\<close> does so too when the deadline is below
  \<open>- 2 ^ 63\<close> or at least \<open>2 ^ 63\<close>. For values in range, reading the payload back
  (unsigned at offset 8, signed at offset 16) gives the original amount and deadline.
\<close>

theorem encoders_reject_or_roundtrip:
  "(lt_amount pl < 0 \<or> 2 ^ 64 \<le> lt_amount pl \<longrightarrow>
      encodeLockTokensIx L pl = (Inl ERR_OUT_OF_RANGE :: 'e error + TransactionInstruction))
   \<and> (ie_amount pe < 0 \<or> 2 ^ 64 \<le> ie_amount pe \<longrightarrow>
      encodeInitEscrowIx L pe = (Inl ERR_OUT_OF_RANGE :: 'e error + TransactionInstruction))
   \<and> (ie_deadlineUnixTs pe < - (2 ^ 63) \<or> 2 ^ 63 \<le> ie_deadlineUnixTs pe \<longrightarrow>
      encodeInitEscrowIx L pe = (Inl ERR_OUT_OF_RANGE :: 'e error + TransactionInstruction))
   \<and> (0 \<le> lt_amount pl \<and> lt_amount pl < 2 ^ 64 \<longrightarrow>
      (\<exists>ix. encodeLockTokensIx L pl = (Inr ix :: 'e error + TransactionInstruction)
          \<and> readBigUInt64LE (data ix) 8 = (Inr (lt_amount pl) :: 'e error + int)))
   \<and> (0 \<le> ie_amount pe \<and> ie_amount pe < 2 ^ 64
      \<and> - (2 ^ 63) \<le> ie_deadlineUnixTs pe \<and> ie_deadlineUnixTs pe < 2 ^ 63 \<longrightarrow>
      (\<exists>ix. encodeInitEscrowIx L pe = (Inr ix :: 'e error + TransactionInstruction)
          \<and> readBigUInt64LE (data ix) 8 = (Inr (ie_amount pe) :: 'e error + int)
          \<and> readBigInt64LE (data ix) 16 = (Inr (ie_deadlineUnixTs pe) :: 'e error + int)))"
proof -
  have c1: "encodeLockTokensIx L pl = (Inl ERR_OUT_OF_RANGE :: 'e error + TransactionInstruction)"
    if "lt_amount pl < 0 \<or> 2 ^ 64 \<le> lt_amount pl"
    using that by (simp add: encodeLockTokensIx_def Let_def writeBigUInt64LE_out_of_range)
  have c2: "encodeInitEscrowIx L pe = (Inl ERR_OUT_OF_RANGE :: 'e error + TransactionInstruction)"
    if "ie_amount pe < 0 \<or> 2 ^ 64 \<le> ie_amount pe"
    using that by (simp add: encodeInitEscrowIx_def Let_def writeBigUInt64LE_out_of_range)
  have c3: "encodeInitEscrowIx L pe = (Inl ERR_OUT_OF_RANGE :: 'e error + TransactionInstruction)"
    if "ie_deadlineUnixTs pe < - (2 ^ 63) \<or> 2 ^ 63 \<le> ie_deadlineUnixTs pe"
  proof (cases "ie_amount pe < 0 \<or> 2 ^ 64 \<le> ie_amount pe")
    case True
    then show ?thesis by (rule c2)
  next
    case False
    then have "0 \<le> ie_amount pe" "ie_amount pe < 2 ^ 64" by simp_all
    then show ?thesis
      using that
      by (simp add: encodeInitEscrowIx_def Let_def writeBigUInt64LE_in_range
          writeBigInt64LE_out_of_range)
  qed
  have c4: "\<exists>ix. encodeLockTokensIx L pl = (Inr ix :: 'e error + TransactionInstruction)
          \<and> readBigUInt64LE (data ix) 8 = (Inr (lt_amount pl) :: 'e error + int)"
    if "0 \<le> lt_amount pl \<and> lt_amount pl < 2 ^ 64"
    using that
      readBigUInt64LE_le64 [of "discriminator L ''lock_tokens''" 8
        "word_of_int (lt_amount pl)" "[]", where ?'a = 'e]
    by (simp add: encodeLockTokensIx_def Let_def Buffer_concat_def writeBigUInt64LE_in_range
        length_discriminator uint_in_range)
  have c5: "\<exists>ix. encodeInitEscrowIx L pe = (Inr ix :: 'e error + TransactionInstruction)
          \<and> readBigUInt64LE (data ix) 8 = (Inr (ie_amount pe) :: 'e error + int)
          \<and> readBigInt64LE (data ix) 16 = (Inr (ie_deadlineUnixTs pe) :: 'e error + int)"
    if "0 \<le> ie_amount pe \<and> ie_amount pe < 2 ^ 64
      \<and> - (2 ^ 63) \<le> ie_deadlineUnixTs pe \<and> ie_deadlineUnixTs pe < 2 ^ 63"
    using that
      readBigUInt64LE_le64 [of "discriminator L ''init_escrow''" 8
        "word_of_int (ie_amount pe)" "le64 (word_of_int (ie_deadlineUnixTs pe))",
        where ?'a = 'e]
      readBigInt64LE_le64 [of "discriminator L ''init_escrow'' @ le64 (word_of_int (ie_amount pe))"
        16 "word_of_int (ie_deadlineUnixTs pe)" "[]", where ?'a = 'e]
    by (simp add: encodeInitEscrowIx_def Let_def Buffer_concat_def writeBigUInt64LE_in_range
        writeBigInt64LE_in_range length_discriminator length_le64 uint_in_range sint_in_range)
  from c1 c2 c3 c4 c5 show ?thesis by blast
qed

theorem encoders_reject_or_roundtrip_witness:
  "encodeLockTokensIx lib0 (lock0\<lparr>lt_amount := - 1\<rparr>)
     = (Inl ERR_OUT_OF_RANGE :: unit error + TransactionInstruction)
   \<and> encodeLockTokensIx lib0 (lock0\<lparr>lt_amount := 2 ^ 64\<rparr>)
     = (Inl ERR_OUT_OF_RANGE :: unit error + TransactionInstruction)
   \<and> encodeInitEscrowIx lib0 (escrow0\<lparr>ie_amount := 2 ^ 64\<rparr>)
     = (Inl ERR_OUT_OF_RANGE :: unit error + TransactionInstruction)
   \<and> encodeInitEscrowIx lib0 (escrow0\<lparr>ie_deadlineUnixTs := 2 ^ 63\<rparr>)
     = (Inl ERR_OUT_OF_RANGE :: unit error + TransactionInstruction)
   \<and> encodeInitEscrowIx lib0 (escrow0\<lparr>ie_deadlineUnixTs := - (2 ^ 63) - 1\<rparr>)
     = (Inl ERR_OUT_OF_RANGE :: unit error + TransactionInstruction)
   \<and> (\<exists>ix. encodeLockTokensIx lib0 lock0 = (Inr ix :: unit error + TransactionInstruction)
        \<and> readBigUInt64LE (data ix) 8 = (Inr 100000 :: unit error + int))
   \<and> (\<exists>ix. encodeInitEscrowIx lib0 (escrow0\<lparr>ie_deadlineUnixTs := - 1\<rparr>)
          = (Inr ix :: unit error + TransactionInstruction)
        \<and> readBigUInt64LE (data ix) 8 = (Inr 50000 :: unit error + int)
        \<and> readBigInt64LE (data ix) 16 = (Inr (- 1) :: unit error + int))"
  using
    encoders_reject_or_roundtrip [of "lock0\<lparr>lt_amount := - 1\<rparr>" lib0
      "escrow0\<lparr>ie_amount := 2 ^ 64\<rparr>", where ?'e = unit]
    encoders_reject_or_roundtrip [of "lock0\<lparr>lt_amount := 2 ^ 64\<rparr>" lib0
      "escrow0\<lparr>ie_deadlineUnixTs := 2 ^ 63\<rparr>", where ?'e = unit]
    encoders_reject_or_roundtrip [of lock0 lib0
      "escrow0\<lparr>ie_deadlineUnixTs := - (2 ^ 63) - 1\<rparr>", where ?'e = unit]
    encoders_reject_or_roundtrip [of lock0 lib0
      "escrow0\<lparr>ie_deadlineUnixTs := - 1\<rparr>", where ?'e = unit]
  by (simp add: lock0_def escrow0_def)

section \<open>Lemmas on the drivers\<close>

lemma vault_load_run:
  assumes "new_PublicKey E (info_programId info) = Some pid"
    and "new_PublicKey E (info_mint info) = Some mint"
    and "new_PublicKey E (info_payer info) = Some buyer"
    and "new_PublicKey E (info_payerAta info) = Some buyerAta"
  shows "vault_load E info s =
    (if buyer \<noteq> payer_publicKey E then Inl WalletMismatch else Inr (pid, mint, buyer, buyerAta),
     s\<lparr>console := console s @
        [LogKey ''Program ID:'' pid, LogKey ''Mint:'' mint,
         LogKey ''Buyer (authority):'' buyer, LogKey ''Buyer ATA:'' buyerAta]\<rparr>)"
  using assms
  by (simp add: vault_load_def pubkeyFromString_def orThrow_def andThen_def ok_def throw_def
      console_log_def)

lemma vault_load_no_send:
  "sent (snd (vault_load E info s)) = sent s \<and> world (snd (vault_load E info s)) = world s"
  by (simp add: vault_load_def pubkeyFromString_def orThrow_def andThen_def ok_def throw_def
      console_log_def split: option.splits)

lemma vault_load_Inr:
  "fst (vault_load E info s) = Inr r \<Longrightarrow> new_PublicKey E (info_payer info) = Some (payer_publicKey E)"
  by (simp add: vault_load_def pubkeyFromString_def orThrow_def andThen_def ok_def throw_def
      console_log_def split: option.splits if_splits)

lemma escrow_load_run:
  assumes "new_PublicKey E (info_programId info) = Some pid"
    and "new_PublicKey E (info_mint info) = Some mint"
    and "new_PublicKey E (info_payer info) = Some buyer"
    and "new_PublicKey E (info_payerAta info) = Some buyerAta"
  shows "escrow_load E info s =
    (if buyer \<noteq> payer_publicKey E then Inl WalletMismatch else Inr (pid, mint, buyer, buyerAta),
     s\<lparr>console := console s @
        [LogKey ''Program ID:'' pid, LogKey ''Mint:'' mint,
         LogKey ''Buyer:'' buyer, LogKey ''Buyer ATA:'' buyerAta]\<rparr>)"
  using assms
  by (simp add: escrow_load_def pubkeyFromString_def orThrow_def andThen_def ok_def throw_def
      console_log_def)

lemma escrow_load_no_send:
  "sent (snd (escrow_load E info s)) = sent s \<and> world (snd (escrow_load E info s)) = world s"
  by (simp add: escrow_load_def pubkeyFromString_def orThrow_def andThen_def ok_def throw_def
      console_log_def split: option.splits)

lemma escrow_load_Inr:
  "fst (escrow_load E info s) = Inr r \<Longrightarrow> new_PublicKey E (info_payer info) = Some (payer_publicKey E)"
  by (simp add: escrow_load_def pubkeyFromString_def orThrow_def andThen_def ok_def throw_def
      console_log_def split: option.splits if_splits)

lemma main_vault_guard:
  assumes "new_PublicKey E (info_payer info) \<noteq> Some (payer_publicKey E)"
  shows "main_vault E info s = (case vault_load E info s of (r, s') \<Rightarrow> (Inl (projl r), s'))
    \<and> (\<exists>e. fst (vault_load E info s) = Inl e)"
proof (cases "vault_load E info s")
  case (Pair r s')
  show ?thesis
  proof (cases r)
    case (Inl e)
    with Pair show ?thesis by (simp add: main_vault_def andThen_def)
  next
    case (Inr x)
    with Pair assms vault_load_Inr [of E info s x] show ?thesis by simp
  qed
qed

lemma main_escrow_guard:
  assumes "new_PublicKey E (info_payer info) \<noteq> Some (payer_publicKey E)"
  shows "main_escrow E info s = (case escrow_load E info s of (r, s') \<Rightarrow> (Inl (projl r), s'))
    \<and> (\<exists>e. fst (escrow_load E info s) = Inl e)"
proof (cases "escrow_load E info s")
  case (Pair r s')
  show ?thesis
  proof (cases r)
    case (Inl e)
    with Pair show ?thesis by (simp add: main_escrow_def andThen_def)
  next
    case (Inr x)
    with Pair assms escrow_load_Inr [of E info s x] show ?thesis by simp
  qed
qed

lemma escrow_addresses_run:
  assumes "deriveVaultPda E pid mint buyer = Some (vaultPda, bump)"
    and "deriveEscrowPda E pid vaultPda buyer (Keypair_generate E) = Some (escrowPda, bump')"
    and "getAssociatedTokenAddress E mint vaultPda True
           (TOKEN_PROGRAM_ID E) (ASSOCIATED_TOKEN_PROGRAM_ID E) = Some vaultAta"
    and "getAssociatedTokenAddress E mint (Keypair_generate E) False
           (TOKEN_PROGRAM_ID E) (ASSOCIATED_TOKEN_PROGRAM_ID E) = Some sellerAta"
  shows "escrow_addresses E pid mint buyer s =
     (Inr (Keypair_generate E, vaultPda, escrowPda, vaultAta, sellerAta),
      s\<lparr>console := console s @
         [LogKey ''Seller pubkey:'' (Keypair_generate E), LogKey ''Vault PDA:'' vaultPda,
          LogKey ''Escrow PDA:'' escrowPda, LogKey ''Vault ATA:'' vaultAta,
          LogKey ''Seller ATA:'' sellerAta]\<rparr>)"
  using assms
  by (simp add: escrow_addresses_def andThen_def ok_def orThrow_def console_log_def Let_def)

lemma escrow_addresses_no_send:
  "sent (snd (escrow_addresses E pid mint buyer s)) = sent s
   \<and> world (snd (escrow_addresses E pid mint buyer s)) = world s"
  by (simp add: escrow_addresses_def andThen_def ok_def throw_def orThrow_def console_log_def
      Let_def split: option.splits prod.splits)

lemma escrow_submit_run:
  fixes E :: "('w, 'e, 'z) env_scheme"
  assumes i: "encodeInitEscrowIx E
              \<lparr>ie_programId = pid, ie_buyer = buyer, ie_seller = seller, ie_mint = mint,
               ie_vault = vaultPda, ie_escrow = escrowPda, ie_amount = 50000,
               ie_deadlineUnixTs = Date_now E div 1000 + 3600\<rparr>
             = (Inr initIx :: 'e error + TransactionInstruction)"
    and t1: "tx1 = [CreateAssociatedTokenAccount buyer sellerAta seller mint
              (TOKEN_PROGRAM_ID E) (ASSOCIATED_TOKEN_PROGRAM_ID E), Encoded initIx]"
    and t2: "tx2 = [Encoded (encodeReleaseToSellerIx E
              \<lparr>rs_programId = pid, rs_buyer = buyer, rs_seller = seller, rs_mint = mint,
               rs_escrow = escrowPda, rs_vault = vaultPda, rs_vaultAta = vaultAta,
               rs_sellerAta = sellerAta\<rparr>)]"
    and r1: "sendAndConfirmTransaction E (world s) tx1 [payer_publicKey E] = (res1, w1)"
    and r2: "sendAndConfirmTransaction E w1 tx2 [payer_publicKey E] = (res2, w2)"
  shows "escrow_submit E pid mint buyer (seller, vaultPda, escrowPda, vaultAta, sellerAta) s =
     (case res1 of
        Inl e \<Rightarrow>
          (Inl (SendTransactionError e),
           \<lparr>world = w1, sent = sent s @ [tx1], console = console s\<rparr>)
      | Inr sig1 \<Rightarrow>
         (case res2 of
            Inl e \<Rightarrow>
              (Inl (SendTransactionError e),
               \<lparr>world = w2, sent = sent s @ [tx1, tx2],
                console = console s @ [LogSig ''init_escrow tx sig:'' sig1]\<rparr>)
          | Inr sig2 \<Rightarrow>
              (Inr (),
               \<lparr>world = w2, sent = sent s @ [tx1, tx2],
                console = console s @
                  [LogSig ''init_escrow tx sig:'' sig1,
                   LogSig ''release_to_seller tx sig:'' sig2,
                   Log ''ESCROW COMPLETE'',
                   Log ''- Escrow PDA was created to track amount, seller, and deadline.'',
                   Log ''- Seller ATA was created so they can receive Goblin Gold.'',
                   Log ''- Tokens were released from your Vault PDA ATA to the seller.'',
                   Log ''You have now completed Task 2 end-to-end on devnet.'']\<rparr>)))"
  using i r1 r2 unfolding t1 t2
  by (cases res1; cases res2)
    (simp_all add: escrow_submit_def andThen_def ok_def throw_def fromResult_def
      console_log_def send_def Let_def)

lemma vault_submit_run:
  fixes E :: "('w, 'e, 'z) env_scheme"
  assumes d: "deriveVaultPda E pid mint buyer = Some (vaultPda, bump)"
    and a: "getAssociatedTokenAddress E mint vaultPda True
              (TOKEN_PROGRAM_ID E) (ASSOCIATED_TOKEN_PROGRAM_ID E) = Some vaultAta"
    and t1: "tx1 = [Encoded (encodeInitVaultIx E
              \<lparr>iv_programId = pid, iv_authority = buyer, iv_mint = mint, iv_vaultPda = vaultPda\<rparr>)]"
    and t2: "tx2 = [CreateAssociatedTokenAccount buyer vaultAta vaultPda mint
              (TOKEN_PROGRAM_ID E) (ASSOCIATED_TOKEN_PROGRAM_ID E)]"
    and t3: "encodeLockTokensIx E
              \<lparr>lt_programId = pid, lt_user = buyer, lt_mint = mint, lt_vaultPda = vaultPda,
               lt_vaultAta = vaultAta, lt_userAta = buyerAta, lt_amount = 100000\<rparr>
             = (Inr lockIx :: 'e error + TransactionInstruction)"
    and r1: "sendAndConfirmTransaction E (world s) tx1 [payer_publicKey E] = (res1, w1)"
    and r2: "sendAndConfirmTransaction E w1 tx2 [payer_publicKey E] = (res2, w2)"
    and r3: "sendAndConfirmTransaction E w2 [Encoded lockIx] [payer_publicKey E] = (res3, w3)"
  shows "vault_submit E pid mint buyer buyerAta s =
     (case res3 of Inl e \<Rightarrow> Inl (SendTransactionError e) | Inr sig \<Rightarrow> Inr (),
      \<lparr>world = w3,
       sent = sent s @ [tx1, tx2, [Encoded lockIx]],
       console = console s @ [LogKey ''Vault PDA:'' vaultPda, LogKey ''Vault ATA:'' vaultAta]
         @ (case res1 of
              Inl e \<Rightarrow>
                [Log ''init_vault probably already ran, skipping. Details:'',
                 LogError (SendTransactionError e)]
            | Inr sig \<Rightarrow> [LogSig ''init_vault tx sig:'' sig])
         @ (case res2 of
              Inl e \<Rightarrow>
                [Log ''vault ATA likely already exists, skipping. Details:'',
                 LogError (SendTransactionError e)]
            | Inr sig \<Rightarrow> [LogSig ''create vault ATA tx sig:'' sig])
         @ (case res3 of
              Inl e \<Rightarrow> []
            | Inr sig \<Rightarrow>
                [LogSig ''lock_tokens tx sig:'' sig, Log ''DONE'',
                 Log ''- Vault PDA is initialized on devnet.'',
                 Log ''- Vault ATA exists for that PDA and mint.'',
                 Log ''- ~0.1 Goblin Gold moved from your wallet ATA into the vault ATA.'',
                 Log ''That completes: mint token -> create vault -> lock tokens in vault.'',
                 Log ''Escrow is next.''])\<rparr>)"
  using d a t3 r1 r2 r3 unfolding t1 t2
  by (cases res1; cases res2; cases res3)
    (simp_all add: vault_submit_def andThen_def ok_def throw_def tryCatch_def orThrow_def
      fromResult_def console_log_def send_def Let_def)

section \<open>Lemmas on the settlement executor\<close>

lemma encodeLockTokensIx_in_range:
  assumes "0 \<le> lt_amount p" "lt_amount p < 2 ^ 64"
  shows "encodeLockTokensIx L p =
    (Inr \<lparr>programId = lt_programId p,
         keys =
           [ \<lparr>pubkey = lt_user p, isSigner = True, isWritable = True\<rparr>,
             \<lparr>pubkey = lt_mint p, isSigner = False, isWritable = False\<rparr>,
             \<lparr>pubkey = lt_vaultPda p, isSigner = False, isWritable = False\<rparr>,
             \<lparr>pubkey = lt_vaultAta p, isSigner = False, isWritable = True\<rparr>,
             \<lparr>pubkey = lt_userAta p, isSigner = False, isWritable = True\<rparr>,
             \<lparr>pubkey = TOKEN_PROGRAM_ID L, isSigner = False, isWritable = False\<rparr>,
             \<lparr>pubkey = ASSOCIATED_TOKEN_PROGRAM_ID L, isSigner = False, isWritable = False\<rparr>,
             \<lparr>pubkey = SystemProgram_programId L, isSigner = False, isWritable = False\<rparr> ],
         data = discriminator L ''lock_tokens'' @ le64 (word_of_int (lt_amount p))\<rparr>
      :: 'e error + TransactionInstruction)"
  using assms
  by (simp add: encodeLockTokensIx_def Let_def Buffer_concat_def writeBigUInt64LE_in_range)

lemma encodeInitEscrowIx_in_range:
  assumes "0 \<le> ie_amount p" "ie_amount p < 2 ^ 64"
    and "- (2 ^ 63) \<le> ie_deadlineUnixTs p" "ie_deadlineUnixTs p < 2 ^ 63"
  shows "encodeInitEscrowIx L p =
    (Inr \<lparr>programId = ie_programId p,
         keys =
           [ \<lparr>pubkey = ie_buyer p, isSigner = True, isWritable = True\<rparr>,
             \<lparr>pubkey = ie_seller p, isSigner = False, isWritable = False\<rparr>,
             \<lparr>pubkey = ie_mint p, isSigner = False, isWritable = False\<rparr>,
             \<lparr>pubkey = ie_vault p, isSigner = False, isWritable = False\<rparr>,
             \<lparr>pubkey = ie_escrow p, isSigner = False, isWritable = True\<rparr>,
             \<lparr>pubkey = SystemProgram_programId L, isSigner = False, isWritable = False\<rparr> ],
         data = discriminator L ''init_escrow'' @ le64 (word_of_int (ie_amount p))
           @ le64 (word_of_int (ie_deadlineUnixTs p))\<rparr>
      :: 'e error + TransactionInstruction)"
  using assms
  by (simp add: encodeInitEscrowIx_def Let_def Buffer_concat_def writeBigUInt64LE_in_range
      writeBigInt64LE_in_range)

lemma settle_single:
  "settle sel hold l [i] signers =
     (case settle_instruction sel hold signers i l of
        Inl f \<Rightarrow> (Inl f, l)
      | Inr l' \<Rightarrow> (Inr ''signature'', l'))"
  by (simp add: settle_def split: sum.splits)

lemma settle_pair:
  "settle sel hold l [i, j] signers =
     (case settle_instruction sel hold signers i l of
        Inl f \<Rightarrow> (Inl f, l)
      | Inr l' \<Rightarrow>
         (case settle_instruction sel hold signers j l' of
            Inl f \<Rightarrow> (Inl f, l)
          | Inr l'' \<Rightarrow> (Inr ''signature'', l'')))"
  by (simp add: settle_def split: sum.splits)

text \<open>Dispatch of the four encoded instructions.\<close>

lemma dispatch_init_vault:
  "settle_encoded (discriminator L) hold signers (encodeInitVaultIx L p) l
   = vault_init signers (keys (encodeInitVaultIx L p)) l"
  by (simp add: settle_encoded_def encodeInitVaultIx_def Let_def length_discriminator)

lemma dispatch_lock_tokens:
  assumes "discriminator L ''lock_tokens'' \<noteq> discriminator L ''init_vault''"
    and "0 \<le> a" "a < 2 ^ 64"
    and "data ix = discriminator L ''lock_tokens'' @ le64 (word_of_int a)"
  shows "settle_encoded (discriminator L) hold signers ix l = custody_fund signers (keys ix) a l"
  using assms readBigUInt64LE_le64 [of "discriminator L ''lock_tokens''" 8 "word_of_int a" "[]",
      where ?'a = unit]
  by (simp add: settle_encoded_def Let_def length_discriminator uint_in_range)

lemma dispatch_init_escrow:
  assumes "discriminator L ''init_escrow'' \<noteq> discriminator L ''init_vault''"
    and "discriminator L ''init_escrow'' \<noteq> discriminator L ''lock_tokens''"
    and "0 \<le> a" "a < 2 ^ 64" "- (2 ^ 63) \<le> d" "d < 2 ^ 63"
    and "data ix = discriminator L ''init_escrow'' @ le64 (word_of_int a) @ le64 (word_of_int d)"
  shows "settle_encoded (discriminator L) hold signers ix l
    = agreement_init hold signers (keys ix) a d l"
  using assms
    readBigUInt64LE_le64 [of "discriminator L ''init_escrow''" 8 "word_of_int a"
      "le64 (word_of_int d)", where ?'a = unit]
    readBigInt64LE_le64 [of "discriminator L ''init_escrow'' @ le64 (word_of_int a)" 16
      "word_of_int d" "[]", where ?'a = unit]
  by (simp add: settle_encoded_def Let_def length_discriminator length_le64 uint_in_range
      sint_in_range)

lemma dispatch_release:
  assumes "discriminator L ''release_to_seller'' \<noteq> discriminator L ''init_vault''"
    and "discriminator L ''release_to_seller'' \<noteq> discriminator L ''lock_tokens''"
    and "discriminator L ''release_to_seller'' \<noteq> discriminator L ''init_escrow''"
  shows "settle_encoded (discriminator L) hold signers (encodeReleaseToSellerIx L p) l
    = release signers (keys (encodeReleaseToSellerIx L p)) l"
  using assms
  by (simp add: settle_encoded_def encodeReleaseToSellerIx_def Let_def length_discriminator)

text \<open>The transitions under their preconditions.\<close>

lemma vault_init_fresh:
  assumes "authority \<in> set signers" "vaults l v = None"
  shows "vault_init signers
     [ \<lparr>pubkey = authority, isSigner = True, isWritable = True\<rparr>,
       \<lparr>pubkey = mint, isSigner = False, isWritable = False\<rparr>,
       \<lparr>pubkey = v, isSigner = False, isWritable = True\<rparr>,
       \<lparr>pubkey = sys, isSigner = False, isWritable = False\<rparr> ] l
   = Inr (l\<lparr>vaults := (vaults l)(v \<mapsto> \<lparr>v_asset = mint, v_authority = authority\<rparr>)\<rparr>)"
  using assms by (simp add: vault_init_def cosigned_def Let_def)

lemma vault_init_again:
  assumes "authority \<in> set signers" "vaults l v = Some x"
  shows "vault_init signers
     [ \<lparr>pubkey = authority, isSigner = True, isWritable = True\<rparr>,
       \<lparr>pubkey = mint, isSigner = False, isWritable = False\<rparr>,
       \<lparr>pubkey = v, isSigner = False, isWritable = True\<rparr>,
       \<lparr>pubkey = sys, isSigner = False, isWritable = False\<rparr> ] l
   = Inl DuplicateInitialization"
  using assms by (simp add: vault_init_def cosigned_def Let_def)

lemma custody_fund_ok:
  assumes "holder \<in> set signers"
    and "vaults l v = Some vr" "v_authority vr = holder"
    and "holdings l va = Some vh" "h_owner vh = v"
    and "holdings l ha = Some hh" "h_owner hh = holder"
    and "amount \<le> h_balance hh" "va \<noteq> ha"
  shows "custody_fund signers
     [ \<lparr>pubkey = holder, isSigner = True, isWritable = True\<rparr>,
       \<lparr>pubkey = mint, isSigner = False, isWritable = False\<rparr>,
       \<lparr>pubkey = v, isSigner = False, isWritable = False\<rparr>,
       \<lparr>pubkey = va, isSigner = False, isWritable = True\<rparr>,
       \<lparr>pubkey = ha, isSigner = False, isWritable = True\<rparr>,
       \<lparr>pubkey = p1, isSigner = False, isWritable = False\<rparr>,
       \<lparr>pubkey = p2, isSigner = False, isWritable = False\<rparr>,
       \<lparr>pubkey = p3, isSigner = False, isWritable = False\<rparr> ] amount l
   = Inr (l\<lparr>holdings := (holdings l)
        (ha \<mapsto> hh\<lparr>h_balance := h_balance hh - amount\<rparr>,
         va \<mapsto> vh\<lparr>h_balance := h_balance vh + amount\<rparr>)\<rparr>)"
  using assms by (simp add: custody_fund_def cosigned_def Let_def move_def)

lemma agreement_init_ok:
  assumes "buyer \<in> set signers"
    and "agreements l ag = None"
    and "vaults l v = Some vr" "v_authority vr = buyer"
    and "hold mint v = Some va" "holdings l va = Some vh"
    and "amount \<le> h_balance vh" "clock l < deadline"
  shows "agreement_init hold signers
     [ \<lparr>pubkey = buyer, isSigner = True, isWritable = True\<rparr>,
       \<lparr>pubkey = seller, isSigner = False, isWritable = False\<rparr>,
       \<lparr>pubkey = mint, isSigner = False, isWritable = False\<rparr>,
       \<lparr>pubkey = v, isSigner = False, isWritable = False\<rparr>,
       \<lparr>pubkey = ag, isSigner = False, isWritable = True\<rparr>,
       \<lparr>pubkey = sys, isSigner = False, isWritable = False\<rparr> ] amount deadline l
   = Inr (l\<lparr>agreements := (agreements l)(ag \<mapsto>
        \<lparr>a_vault = v, a_buyer = buyer, a_seller = seller, a_amount = amount,
         a_deadline = deadline, a_status = Active\<rparr>)\<rparr>)"
  using assms by (simp add: agreement_init_def cosigned_def Let_def)

lemma agreement_init_exceeds:
  assumes "buyer \<in> set signers"
    and "agreements l ag = None"
    and "vaults l v = Some vr" "v_authority vr = buyer"
    and "hold mint v = Some va" "holdings l va = Some vh"
    and "h_balance vh < amount"
  shows "agreement_init hold signers
     [ \<lparr>pubkey = buyer, isSigner = True, isWritable = True\<rparr>,
       \<lparr>pubkey = seller, isSigner = False, isWritable = False\<rparr>,
       \<lparr>pubkey = mint, isSigner = False, isWritable = False\<rparr>,
       \<lparr>pubkey = v, isSigner = False, isWritable = False\<rparr>,
       \<lparr>pubkey = ag, isSigner = False, isWritable = True\<rparr>,
       \<lparr>pubkey = sys, isSigner = False, isWritable = False\<rparr> ] amount deadline l
   = Inl PreconditionViolation"
  using assms by (simp add: agreement_init_def cosigned_def Let_def)

lemma release_ok:
  assumes "buyer \<in> set signers"
    and "agreements l ag = Some a" "a_buyer a = buyer" "a_seller a = seller" "a_vault a = v"
      "a_status a = Active"
    and "holdings l va = Some vh" "h_owner vh = v"
    and "holdings l sa = Some sh" "h_owner sh = seller"
    and "a_amount a \<le> h_balance vh" "va \<noteq> sa"
  shows "release signers
     [ \<lparr>pubkey = buyer, isSigner = True, isWritable = True\<rparr>,
       \<lparr>pubkey = seller, isSigner = False, isWritable = True\<rparr>,
       \<lparr>pubkey = mint, isSigner = False, isWritable = False\<rparr>,
       \<lparr>pubkey = ag, isSigner = False, isWritable = True\<rparr>,
       \<lparr>pubkey = v, isSigner = False, isWritable = False\<rparr>,
       \<lparr>pubkey = va, isSigner = False, isWritable = True\<rparr>,
       \<lparr>pubkey = sa, isSigner = False, isWritable = True\<rparr>,
       \<lparr>pubkey = p1, isSigner = False, isWritable = False\<rparr>,
       \<lparr>pubkey = p2, isSigner = False, isWritable = False\<rparr>,
       \<lparr>pubkey = p3, isSigner = False, isWritable = False\<rparr> ] l
   = Inr (l\<lparr>holdings := (holdings l)
        (va \<mapsto> vh\<lparr>h_balance := h_balance vh - a_amount a\<rparr>,
         sa \<mapsto> sh\<lparr>h_balance := h_balance sh + a_amount a\<rparr>),
        agreements := (agreements l)(ag \<mapsto> a\<lparr>a_status := Released\<rparr>)\<rparr>)"
  using assms by (simp add: release_def cosigned_def Let_def move_def)

lemma create_holding_fresh:
  assumes "payer' \<in> set signers" "holdings l ata = None"
  shows "settle_instruction sel hold signers
      (CreateAssociatedTokenAccount payer' ata owner' mint tp ap) l
   = Inr (l\<lparr>holdings := (holdings l)(ata \<mapsto>
        \<lparr>h_asset = mint, h_owner = owner', h_balance = 0\<rparr>)\<rparr>)"
  using assms by (simp add: settle_instruction_def)

lemma create_holding_again:
  assumes "payer' \<in> set signers" "holdings l ata = Some h"
  shows "settle_instruction sel hold signers
      (CreateAssociatedTokenAccount payer' ata owner' mint tp ap) l
   = Inl DuplicateInitialization"
  using assms by (simp add: settle_instruction_def)

lemma main_vault_on_ledger:
  fixes E :: "(ledger, failure, 'z) env_scheme"
  assumes exec: "sendAndConfirmTransaction E = settle (discriminator E) (holding_address E)"
    and sel: "discriminator E ''lock_tokens'' \<noteq> discriminator E ''init_vault''"
    and parse: "new_PublicKey E (info_programId info) = Some pid"
      "new_PublicKey E (info_mint info) = Some mint"
      "new_PublicKey E (info_payer info) = Some (payer_publicKey E)"
      "new_PublicKey E (info_payerAta info) = Some buyerAta"
    and dv: "deriveVaultPda E pid mint (payer_publicKey E) = Some (vaultPda, bump)"
    and av: "holding_address E mint vaultPda = Some vaultAta"
    and ne: "vaultAta \<noteq> buyerAta"
    and v0: "vaults l0 vaultPda = None"
    and h0: "holdings l0 vaultAta = None"
    and b0: "holdings l0 buyerAta = Some bh" "h_owner bh = payer_publicKey E"
      "100000 \<le> h_balance bh"
  shows "fst (main_vault E info \<lparr>world = l0, sent = ts, console = c\<rparr>) = Inr ()
    \<and> world (snd (main_vault E info \<lparr>world = l0, sent = ts, console = c\<rparr>)) =
        l0\<lparr>vaults := (vaults l0)(vaultPda \<mapsto> \<lparr>v_asset = mint, v_authority = payer_publicKey E\<rparr>),
           holdings := (holdings l0)
             (buyerAta \<mapsto> bh\<lparr>h_balance := h_balance bh - 100000\<rparr>,
              vaultAta \<mapsto> \<lparr>h_asset = mint, h_owner = vaultPda, h_balance = 100000\<rparr>)\<rparr>"
proof -
  let ?buyer = "payer_publicKey E"
  let ?s = "\<lparr>world = l0, sent = ts, console = c\<rparr> :: (ledger, failure) run"
  define l1 where "l1 = l0\<lparr>vaults := (vaults l0)(vaultPda \<mapsto> \<lparr>v_asset = mint, v_authority = ?buyer\<rparr>)\<rparr>"
  define l2 where "l2 = l1\<lparr>holdings := (holdings l1)(vaultAta \<mapsto>
        \<lparr>h_asset = mint, h_owner = vaultPda, h_balance = 0\<rparr>)\<rparr>"
  define l3 where "l3 = l2\<lparr>holdings := (holdings l2)
        (buyerAta \<mapsto> bh\<lparr>h_balance := h_balance bh - 100000\<rparr>,
         vaultAta \<mapsto> \<lparr>h_asset = mint, h_owner = vaultPda, h_balance = 0\<rparr>
            \<lparr>h_balance := h_balance \<lparr>h_asset = mint, h_owner = vaultPda, h_balance = 0\<rparr> + 100000\<rparr>)\<rparr>"
  define p3 :: LockTokensParams where "p3 =
      \<lparr>lt_programId = pid, lt_user = ?buyer, lt_mint = mint, lt_vaultPda = vaultPda,
       lt_vaultAta = vaultAta, lt_userAta = buyerAta, lt_amount = 100000\<rparr>"
  obtain lockIx where lock: "encodeLockTokensIx E p3 = (Inr lockIx :: failure error + TransactionInstruction)"
    and lock_keys: "keys lockIx =
           [ \<lparr>pubkey = ?buyer, isSigner = True, isWritable = True\<rparr>,
             \<lparr>pubkey = mint, isSigner = False, isWritable = False\<rparr>,
             \<lparr>pubkey = vaultPda, isSigner = False, isWritable = False\<rparr>,
             \<lparr>pubkey = vaultAta, isSigner = False, isWritable = True\<rparr>,
             \<lparr>pubkey = buyerAta, isSigner = False, isWritable = True\<rparr>,
             \<lparr>pubkey = TOKEN_PROGRAM_ID E, isSigner = False, isWritable = False\<rparr>,
             \<lparr>pubkey = ASSOCIATED_TOKEN_PROGRAM_ID E, isSigner = False, isWritable = False\<rparr>,
             \<lparr>pubkey = SystemProgram_programId E, isSigner = False, isWritable = False\<rparr> ]"
    and lock_data: "data lockIx = discriminator E ''lock_tokens'' @ le64 (word_of_int 100000)"
    using encodeLockTokensIx_in_range [of p3 E, where ?'e = failure]
    by (simp add: p3_def)
  have av': "getAssociatedTokenAddress E mint vaultPda True
      (TOKEN_PROGRAM_ID E) (ASSOCIATED_TOKEN_PROGRAM_ID E) = Some vaultAta"
    using av by (simp add: holding_address_def)
  have r1: "sendAndConfirmTransaction E (world ?s)
      [Encoded (encodeInitVaultIx E
         \<lparr>iv_programId = pid, iv_authority = ?buyer, iv_mint = mint, iv_vaultPda = vaultPda\<rparr>)]
      [?buyer] = (Inr ''signature'', l1)"
    using v0
    by (simp add: exec settle_single settle_instruction_def dispatch_init_vault l1_def)
      (simp add: encodeInitVaultIx_def Let_def vault_init_fresh)
  have r2: "sendAndConfirmTransaction E l1
      [CreateAssociatedTokenAccount ?buyer vaultAta vaultPda mint
         (TOKEN_PROGRAM_ID E) (ASSOCIATED_TOKEN_PROGRAM_ID E)] [?buyer] = (Inr ''signature'', l2)"
    using h0 by (simp add: exec settle_single create_holding_fresh l1_def l2_def)
  have d3: "settle_encoded (discriminator E) (holding_address E) [?buyer] lockIx l2
      = custody_fund [?buyer] (keys lockIx) 100000 l2"
    by (rule dispatch_lock_tokens [OF sel _ _ lock_data]) simp_all
  have r3: "sendAndConfirmTransaction E l2 [Encoded lockIx] [?buyer] = (Inr ''signature'', l3)"
    unfolding exec settle_single settle_instruction_def instruction.case d3 lock_keys
    using custody_fund_ok [of ?buyer "[?buyer]" l2 vaultPda
        "\<lparr>v_asset = mint, v_authority = ?buyer\<rparr>" vaultAta
        "\<lparr>h_asset = mint, h_owner = vaultPda, h_balance = 0\<rparr>" buyerAta bh 100000 mint]
      ne b0
    by (simp add: l1_def l2_def l3_def)
  have l3_eq: "l3 = l0\<lparr>vaults := (vaults l0)(vaultPda \<mapsto> \<lparr>v_asset = mint, v_authority = ?buyer\<rparr>),
           holdings := (holdings l0)
             (buyerAta \<mapsto> bh\<lparr>h_balance := h_balance bh - 100000\<rparr>,
              vaultAta \<mapsto> \<lparr>h_asset = mint, h_owner = vaultPda, h_balance = 100000\<rparr>)\<rparr>"
    using ne by (simp add: l1_def l2_def l3_def fun_upd_twist)
  have sub: "fst (vault_submit E pid mint ?buyer buyerAta s') = Inr ()
     \<and> world (snd (vault_submit E pid mint ?buyer buyerAta s')) = l3" if "world s' = l0" for s'
    using vault_submit_run [OF dv av' refl refl lock [unfolded p3_def], of s', OF _ r2 r3] r1 that
    by simp
  show ?thesis
    using vault_load_run [OF parse, of ?s]
      sub [of "snd (vault_load E info ?s)"] 
    by (simp add: main_vault_def andThen_def l3_eq)
qed

lemma main_escrow_on_ledger:
  fixes E :: "(ledger, failure, 'z) env_scheme"
  assumes exec: "sendAndConfirmTransaction E = settle (discriminator E) (holding_address E)"
    and sel: "distinct (map (discriminator E)
        [''init_vault'', ''lock_tokens'', ''init_escrow'', ''release_to_seller''])"
    and parse: "new_PublicKey E (info_programId info) = Some pid"
      "new_PublicKey E (info_mint info) = Some mint"
      "new_PublicKey E (info_payer info) = Some (payer_publicKey E)"
      "new_PublicKey E (info_payerAta info) = Some buyerAta"
    and dv: "deriveVaultPda E pid mint (payer_publicKey E) = Some (vaultPda, bump)"
    and de: "deriveEscrowPda E pid vaultPda (payer_publicKey E) (Keypair_generate E)
        = Some (escrowPda, bump')"
    and av: "holding_address E mint vaultPda = Some vaultAta"
    and as: "getAssociatedTokenAddress E mint (Keypair_generate E) False
        (TOKEN_PROGRAM_ID E) (ASSOCIATED_TOKEN_PROGRAM_ID E) = Some sellerAta"
    and ne: "vaultAta \<noteq> sellerAta"
    and v: "vaults l vaultPda = Some vr" "v_authority vr = payer_publicKey E"
    and h: "holdings l vaultAta = Some vh" "h_owner vh = vaultPda" "50000 \<le> h_balance vh"
    and s0: "holdings l sellerAta = None"
    and a0: "agreements l escrowPda = None"
    and t: "clock l < Date_now E div 1000 + 3600" "- (2 ^ 63) \<le> Date_now E div 1000 + 3600"
      "Date_now E div 1000 + 3600 < 2 ^ 63"
  shows "fst (main_escrow E info \<lparr>world = l, sent = ts, console = c\<rparr>) = Inr ()
    \<and> world (snd (main_escrow E info \<lparr>world = l, sent = ts, console = c\<rparr>)) =
        l\<lparr>holdings := (holdings l)
             (vaultAta \<mapsto> vh\<lparr>h_balance := h_balance vh - 50000\<rparr>,
              sellerAta \<mapsto> \<lparr>h_asset = mint, h_owner = Keypair_generate E, h_balance = 50000\<rparr>),
          agreements := (agreements l)(escrowPda \<mapsto>
             \<lparr>a_vault = vaultPda, a_buyer = payer_publicKey E, a_seller = Keypair_generate E,
              a_amount = 50000, a_deadline = Date_now E div 1000 + 3600,
              a_status = Released\<rparr>)\<rparr>"
proof -
  let ?buyer = "payer_publicKey E"
  let ?seller = "Keypair_generate E"
  let ?deadline = "Date_now E div 1000 + 3600"
  let ?s = "\<lparr>world = l, sent = ts, console = c\<rparr> :: (ledger, failure) run"
  let ?ag = "\<lparr>a_vault = vaultPda, a_buyer = ?buyer, a_seller = ?seller,
              a_amount = 50000, a_deadline = ?deadline, a_status = Active\<rparr>"
  let ?sh = "\<lparr>h_asset = mint, h_owner = ?seller, h_balance = 0\<rparr>"
  define l1 where "l1 = l\<lparr>holdings := (holdings l)(sellerAta \<mapsto> ?sh)\<rparr>"
  define l2 where "l2 = l1\<lparr>agreements := (agreements l1)(escrowPda \<mapsto> ?ag)\<rparr>"
  define l3 where "l3 = l2\<lparr>holdings := (holdings l2)
        (vaultAta \<mapsto> vh\<lparr>h_balance := h_balance vh - a_amount ?ag\<rparr>,
         sellerAta \<mapsto> ?sh\<lparr>h_balance := h_balance ?sh + a_amount ?ag\<rparr>),
        agreements := (agreements l2)(escrowPda \<mapsto> ?ag\<lparr>a_status := Released\<rparr>)\<rparr>"
  define p1 :: InitEscrowParams where "p1 =
      \<lparr>ie_programId = pid, ie_buyer = ?buyer, ie_seller = ?seller, ie_mint = mint,
       ie_vault = vaultPda, ie_escrow = escrowPda, ie_amount = 50000,
       ie_deadlineUnixTs = ?deadline\<rparr>"
  define p2 :: ReleaseToSellerParams where "p2 =
      \<lparr>rs_programId = pid, rs_buyer = ?buyer, rs_seller = ?seller, rs_mint = mint,
       rs_escrow = escrowPda, rs_vault = vaultPda, rs_vaultAta = vaultAta,
       rs_sellerAta = sellerAta\<rparr>"
  from sel have sel':
    "discriminator E ''lock_tokens'' \<noteq> discriminator E ''init_vault''"
    "discriminator E ''init_escrow'' \<noteq> discriminator E ''init_vault''"
    "discriminator E ''init_escrow'' \<noteq> discriminator E ''lock_tokens''"
    "discriminator E ''release_to_seller'' \<noteq> discriminator E ''init_vault''"
    "discriminator E ''release_to_seller'' \<noteq> discriminator E ''lock_tokens''"
    "discriminator E ''release_to_seller'' \<noteq> discriminator E ''init_escrow''"
    by auto
  obtain initIx where init: "encodeInitEscrowIx E p1 = (Inr initIx :: failure error + TransactionInstruction)"
    and init_keys: "keys initIx =
           [ \<lparr>pubkey = ?buyer, isSigner = True, isWritable = True\<rparr>,
             \<lparr>pubkey = ?seller, isSigner = False, isWritable = False\<rparr>,
             \<lparr>pubkey = mint, isSigner = False, isWritable = False\<rparr>,
             \<lparr>pubkey = vaultPda, isSigner = False, isWritable = False\<rparr>,
             \<lparr>pubkey = escrowPda, isSigner = False, isWritable = True\<rparr>,
             \<lparr>pubkey = SystemProgram_programId E, isSigner = False, isWritable = False\<rparr> ]"
    and init_data: "data initIx = discriminator E ''init_escrow'' @ le64 (word_of_int 50000)
           @ le64 (word_of_int ?deadline)"
    using encodeInitEscrowIx_in_range [of p1 E, where ?'e = failure] t
    by (simp add: p1_def)
  have av': "getAssociatedTokenAddress E mint vaultPda True
      (TOKEN_PROGRAM_ID E) (ASSOCIATED_TOKEN_PROGRAM_ID E) = Some vaultAta"
    using av by (simp add: holding_address_def)
  have c1: "settle_instruction (discriminator E) (holding_address E) [?buyer]
      (CreateAssociatedTokenAccount ?buyer sellerAta ?seller mint
         (TOKEN_PROGRAM_ID E) (ASSOCIATED_TOKEN_PROGRAM_ID E)) l = Inr l1"
    using s0 by (simp add: create_holding_fresh l1_def)
  have d1: "settle_encoded (discriminator E) (holding_address E) [?buyer] initIx l1
      = agreement_init (holding_address E) [?buyer] (keys initIx) 50000 ?deadline l1"
    by (rule dispatch_init_escrow [OF sel'(2) sel'(3) _ _ t(2) t(3) init_data]) simp_all
  have i1: "agreement_init (holding_address E) [?buyer] (keys initIx) 50000 ?deadline l1 = Inr l2"
    unfolding init_keys
    using agreement_init_ok [of ?buyer "[?buyer]" l1 escrowPda vaultPda vr "holding_address E"
        mint vaultAta vh 50000 ?deadline ?seller] v h a0 av ne t
    by (simp add: l1_def l2_def)
  have r1: "sendAndConfirmTransaction E (world ?s)
      [CreateAssociatedTokenAccount ?buyer sellerAta ?seller mint
         (TOKEN_PROGRAM_ID E) (ASSOCIATED_TOKEN_PROGRAM_ID E), Encoded initIx] [?buyer]
      = (Inr ''signature'', l2)"
    by (simp add: exec settle_pair c1) (simp add: settle_instruction_def d1 i1)
  have d2: "settle_encoded (discriminator E) (holding_address E) [?buyer]
        (encodeReleaseToSellerIx E p2) l2
      = release [?buyer] (keys (encodeReleaseToSellerIx E p2)) l2"
    by (rule dispatch_release [OF sel'(4) sel'(5) sel'(6)])
  have k2: "keys (encodeReleaseToSellerIx E p2) =
     [ \<lparr>pubkey = ?buyer, isSigner = True, isWritable = True\<rparr>,
       \<lparr>pubkey = ?seller, isSigner = False, isWritable = True\<rparr>,
       \<lparr>pubkey = mint, isSigner = False, isWritable = False\<rparr>,
       \<lparr>pubkey = escrowPda, isSigner = False, isWritable = True\<rparr>,
       \<lparr>pubkey = vaultPda, isSigner = False, isWritable = False\<rparr>,
       \<lparr>pubkey = vaultAta, isSigner = False, isWritable = True\<rparr>,
       \<lparr>pubkey = sellerAta, isSigner = False, isWritable = True\<rparr>,
       \<lparr>pubkey = TOKEN_PROGRAM_ID E, isSigner = False, isWritable = False\<rparr>,
       \<lparr>pubkey = ASSOCIATED_TOKEN_PROGRAM_ID E, isSigner = False, isWritable = False\<rparr>,
       \<lparr>pubkey = SystemProgram_programId E, isSigner = False, isWritable = False\<rparr> ]"
    by (simp add: encodeReleaseToSellerIx_def p2_def Let_def)
  have i2: "release [?buyer] (keys (encodeReleaseToSellerIx E p2)) l2 = Inr l3"
    unfolding k2
    using release_ok [of ?buyer "[?buyer]" l2 escrowPda ?ag ?seller vaultPda vaultAta vh
        sellerAta ?sh mint] h ne
    by (simp add: l1_def l2_def l3_def)
  have r2: "sendAndConfirmTransaction E l2 [Encoded (encodeReleaseToSellerIx E p2)] [?buyer]
      = (Inr ''signature'', l3)"
    by (simp add: exec settle_single settle_instruction_def d2 i2)
  have l3_eq: "l3 = l\<lparr>holdings := (holdings l)
             (vaultAta \<mapsto> vh\<lparr>h_balance := h_balance vh - 50000\<rparr>,
              sellerAta \<mapsto> \<lparr>h_asset = mint, h_owner = ?seller, h_balance = 50000\<rparr>),
          agreements := (agreements l)(escrowPda \<mapsto>
             \<lparr>a_vault = vaultPda, a_buyer = ?buyer, a_seller = ?seller,
              a_amount = 50000, a_deadline = ?deadline, a_status = Released\<rparr>)\<rparr>"
    using ne by (simp add: l1_def l2_def l3_def fun_upd_twist)
  have sub: "fst (escrow_submit E pid mint ?buyer
        (?seller, vaultPda, escrowPda, vaultAta, sellerAta) s') = Inr ()
     \<and> world (snd (escrow_submit E pid mint ?buyer
        (?seller, vaultPda, escrowPda, vaultAta, sellerAta) s')) = l3" if "world s' = l" for s'
    using escrow_submit_run [where E = E and pid = pid and buyer = ?buyer and seller = ?seller
        and mint = mint and vaultPda = vaultPda and escrowPda = escrowPda and initIx = initIx
        and vaultAta = vaultAta and sellerAta = sellerAta and s = s',
        OF init [unfolded p1_def] refl refl _ r2 [unfolded p2_def]] r1 that
    by simp
  show ?thesis
    using escrow_load_run [OF parse, of ?s]
      escrow_addresses_run [OF dv de av' as, of "snd (escrow_load E info ?s)"]
      sub [of "snd (escrow_addresses E pid mint ?buyer (snd (escrow_load E info ?s)))"]
    by (simp add: main_escrow_def andThen_def l3_eq)
qed

lemma main_mint_on_ledger:
  fixes E :: "(ledger, failure, 'z) env_scheme"
  assumes exec: "sendAndConfirmTransaction E = settle (discriminator E) (holding_address E)"
    and pa: "getAssociatedTokenAddress E (Keypair_generate E) (payer_publicKey E) False
        (TOKEN_PROGRAM_ID E) (ASSOCIATED_TOKEN_PROGRAM_ID E) = Some payerAta"
    and m0: "assets l (Keypair_generate E) = None"
    and h0: "holdings l payerAta = None"
  shows "fst (main_mint E \<lparr>world = l, sent = ts, console = c\<rparr>) =
      Inr \<lparr> info_programId = ''AhtmyF1FM2NwGYECDzgjC6jbNtPnSRDFzhahugFfqkZW'',
            info_mint = toBase58 E (Keypair_generate E),
            info_payer = toBase58 E (payer_publicKey E),
            info_payerAta = toBase58 E payerAta,
            info_decimals = 6,
            info_tokenName = ''Goblin Gold'' \<rparr>
    \<and> world (snd (main_mint E \<lparr>world = l, sent = ts, console = c\<rparr>)) =
        l\<lparr>assets := (assets l)(Keypair_generate E \<mapsto>
             \<lparr>d_decimals = 6, d_mint_authority = payer_publicKey E,
              d_freeze_authority = payer_publicKey E\<rparr>),
          holdings := (holdings l)(payerAta \<mapsto>
             \<lparr>h_asset = Keypair_generate E, h_owner = payer_publicKey E,
              h_balance = 1000000000000\<rparr>)\<rparr>
    \<and> sent (snd (main_mint E \<lparr>world = l, sent = ts, console = c\<rparr>)) = ts @
        [[CreateAccount (payer_publicKey E) (Keypair_generate E)
            (getMinimumBalanceForRentExemptMint E l) (MINT_SIZE E) (TOKEN_PROGRAM_ID E),
          InitializeMint2 (Keypair_generate E) 6 (payer_publicKey E) (payer_publicKey E),
          CreateAssociatedTokenAccount (payer_publicKey E) payerAta (payer_publicKey E)
            (Keypair_generate E) (TOKEN_PROGRAM_ID E) (ASSOCIATED_TOKEN_PROGRAM_ID E),
          MintTo (Keypair_generate E) payerAta (payer_publicKey E) 1000000000000
            (TOKEN_PROGRAM_ID E)]]"
  using pa m0 h0
  by (simp add: main_mint_def andThen_def ok_def orThrow_def console_log_def send_def Let_def
      exec settle_def settle_instruction_def)

section \<open>Lemmas on the concrete instance\<close>

lemma length_first32: "length (first32 bs) = 32"
  by (simp add: first32_def)

lemma first32_id: "length bs = 32 \<Longrightarrow> first32 bs = bs"
  by (simp add: first32_def)

lemma byte_char_roundtrip: "of_nat (unat (b :: byte) mod 256) = b"
proof -
  have "unat b < 256" using unsigned_less [of b] by simp
  then show ?thesis by simp
qed

lemma parse0_print0: "parse0 (print0 k) = Some k"
proof -
  have "Buffer_from (print0 k) = toBuffer k"
    by (simp add: Buffer_from_def print0_def comp_def byte_char_roundtrip)
  then show ?thesis
    by (simp add: parse0_def print0_def first32_id length_toBuffer toBuffer_inverse)
qed

lemma key_inject: "n < 256 \<Longrightarrow> m < 256 \<Longrightarrow> (key n = key m) = (n = m)"
proof -
  assume a: "n < 256" "m < 256"
  have "(key n = key m) = (replicate 32 (of_nat n :: byte) = replicate 32 (of_nat m))"
    by (simp add: key_def PublicKey_inject)
  also have "\<dots> = ((of_nat n :: byte) = of_nat m)"
    by simp
  also have "\<dots> = (n = m)"
    using a by (simp add: word_of_nat_eq_iff take_bit_nat_eq_self)
  finally show ?thesis .
qed

lemma discriminator_env_with: "discriminator (env_with f) n = (discriminator lib0) n"
  by (simp add: discriminator_def env_with_def lib0_def discriminator_def lib0_def subarray_def Sha256Digest_inverse length_pad32 subarray_def Sha256Digest_inverse
      length_pad32)

lemma selector_values_lib0:
  "(discriminator lib0) ''init_vault'' = [0x74, 0x6c, 0x75, 0x61, 0x76, 0x5f, 0x74, 0x69]"
  "(discriminator lib0) ''lock_tokens'' = [0x73, 0x6e, 0x65, 0x6b, 0x6f, 0x74, 0x5f, 0x6b]"
  "(discriminator lib0) ''init_escrow'' = [0x77, 0x6f, 0x72, 0x63, 0x73, 0x65, 0x5f, 0x74]"
  "(discriminator lib0) ''release_to_seller'' = [0x72, 0x65, 0x6c, 0x6c, 0x65, 0x73, 0x5f, 0x6f]"
  by (simp_all add: discriminator_def lib0_def subarray_def Sha256Digest_inverse length_pad32 pad32_def Buffer_from_def)

lemma selectors_distinct_lib0:
  "distinct (map (discriminator lib0) [''init_vault'', ''lock_tokens'', ''init_escrow'', ''release_to_seller''])"
  by (simp add: selector_values_lib0)

lemma ata0_key: "ata0 mint (key n) allow tp ap = Some (key (n + 128))"
  by (simp add: ata0_def toBuffer_key) (simp add: key_def)

lemma derive_vault0: "deriveVaultPda (env_with f) pid (key 3) (key 2) = Some (vaultPda0, 255)"
  by (simp add: deriveVaultPda_def env_with_def lib0_def derive0_def toBuffer_key vaultPda0_def
      first32_def Buffer_from_def)

lemma toBuffer_vaultPda0: "toBuffer vaultPda0 = Buffer_from ''vault'' @ replicate 27 3"
  by (simp add: vaultPda0_def PublicKey_inverse Buffer_from_def)

lemma derive_escrow0:
  "deriveEscrowPda (env_with f) pid vaultPda0 (key 2) (key 9) = Some (escrowPda0, 255)"
  by (simp add: deriveEscrowPda_def env_with_def lib0_def derive0_def toBuffer_key toBuffer_vaultPda0
      escrowPda0_def first32_def Buffer_from_def)

lemma ata_vault0: "ata0 mint vaultPda0 allow tp ap = Some vaultAta0"
  by (simp add: ata0_def toBuffer_vaultPda0 vaultAta0_def)

lemma toBuffer_vaultAta0: "hd (toBuffer vaultAta0) = 0xf6"
  by (simp add: vaultAta0_def PublicKey_inverse Buffer_from_def)

lemma vaultAta0_not_key: "n < 246 \<Longrightarrow> vaultAta0 \<noteq> key n"
proof
  assume a: "n < 246" and "vaultAta0 = key n"
  then have "hd (toBuffer vaultAta0) = hd (toBuffer (key n))" by simp
  then have "(0xf6 :: byte) = of_nat n" by (simp add: toBuffer_vaultAta0 toBuffer_key)
  then have "(of_nat 246 :: byte) = of_nat n" by simp
  then have "246 = n" using a by (simp add: word_of_nat_eq_iff take_bit_nat_eq_self del: of_nat_numeral)
  with a show False by simp
qed

lemma parse_pid0: "parse0 ''AhtmyF1FM2NwGYECDzgjC6jbNtPnSRDFzhahugFfqkZW'' = Some pid0"
  by (simp add: parse0_def pid0_def)

lemma parse_info0:
  "new_PublicKey (env_with f) (info_programId info0) = Some pid0"
  "new_PublicKey (env_with f) (info_mint info0) = Some (key 3)"
  "new_PublicKey (env_with f) (info_payer info0) = Some (payer_publicKey (env_with f))"
  "new_PublicKey (env_with f) (info_payerAta info0) = Some (key 130)"
  by (simp_all add: env_with_def lib0_def info0_def parse0_print0 parse_pid0)

lemma env_with_fields:
  "payer_publicKey (env_with f) = key 2"
  "TOKEN_PROGRAM_ID (env_with f) = key 6"
  "ASSOCIATED_TOKEN_PROGRAM_ID (env_with f) = key 7"
  "SystemProgram_programId (env_with f) = key 0"
  "getAssociatedTokenAddress (env_with f) = ata0"
  "sendAndConfirmTransaction (env_with f) = f"
  "Keypair_generate (env_with f) = key 3"
  "Date_now (env_with f) = 1700000000000"
  "new_PublicKey (env_with f) = parse0"
  "toBase58 (env_with f) = print0"
  by (simp_all add: env_with_def lib0_def)

lemma env3_fields:
  "payer_publicKey env3 = key 2"
  "TOKEN_PROGRAM_ID env3 = key 6"
  "ASSOCIATED_TOKEN_PROGRAM_ID env3 = key 7"
  "SystemProgram_programId env3 = key 0"
  "getAssociatedTokenAddress env3 = ata0"
  "sendAndConfirmTransaction env3 = settle (discriminator lib0) (\<lambda>a w. ata0 a w True (key 6) (key 7))"
  "Keypair_generate env3 = key 9"
  "Date_now env3 = 1700000000000"
  "new_PublicKey env3 = parse0"
  by (simp_all add: env3_def env0_def env_with_def lib0_def)

lemma discriminator_env3: "discriminator env3 = (discriminator lib0)"
proof
  fix n
  have "discriminator env3 n =
      discriminator (env_with (settle (discriminator lib0) (\<lambda>a w. ata0 a w True (key 6) (key 7)))) n"
    by (simp add: discriminator_def env3_def env0_def)
  then show "discriminator env3 n = (discriminator lib0) n"
    by (simp add: discriminator_env_with)
qed

lemma derive_env3:
  "deriveVaultPda env3 pid (key 3) (key 2) = Some (vaultPda0, 255)"
  "deriveEscrowPda env3 pid vaultPda0 (key 2) (key 9) = Some (escrowPda0, 255)"
  using derive_vault0 [of "settle (discriminator lib0) (\<lambda>a w. ata0 a w True (key 6) (key 7))" pid]
    derive_escrow0 [of "settle (discriminator lib0) (\<lambda>a w. ata0 a w True (key 6) (key 7))" pid]
  by (simp_all add: env3_def env0_def deriveVaultPda_def deriveEscrowPda_def)

lemma parse_info0_env3:
  "new_PublicKey env3 (info_programId info0) = Some pid0"
  "new_PublicKey env3 (info_mint info0) = Some (key 3)"
  "new_PublicKey env3 (info_payer info0) = Some (payer_publicKey env3)"
  "new_PublicKey env3 (info_payerAta info0) = Some (key 130)"
  by (simp_all add: env3_fields info0_def parse0_print0 parse_pid0)

lemma over_holdings_rejected:
  assumes i: "encodeInitEscrowIx env3
              \<lparr>ie_programId = pid0, ie_buyer = key 2, ie_seller = key 9,
               ie_mint = key 3, ie_vault = vaultPda0, ie_escrow = escrowPda0, ie_amount = 50000,
               ie_deadlineUnixTs = 1700003600\<rparr>
             = (Inr initIx :: failure error + TransactionInstruction)"
  shows "sendAndConfirmTransaction env3 ledger1
      [CreateAssociatedTokenAccount (key 2) (key 137) (key 9) (key 3) (key 6) (key 7),
       Encoded initIx] [key 2] = (Inl PreconditionViolation, ledger1)"
proof -
  let ?hold = "\<lambda>a w. ata0 a w True (key 6) (key 7)"
  define l where "l = ledger1\<lparr>holdings := (holdings ledger1)(key 137 \<mapsto>
        \<lparr>h_asset = key 3, h_owner = key 9, h_balance = 0\<rparr>)\<rparr>"
  have ne: "vaultAta0 \<noteq> key 137" by (rule vaultAta0_not_key) simp
  have c: "settle_instruction (discriminator lib0) ?hold [key 2]
      (CreateAssociatedTokenAccount (key 2) (key 137) (key 9) (key 3) (key 6) (key 7)) ledger1
      = Inr l"
    using ne by (simp add: create_holding_fresh ledger1_def ledger0_def l_def)
  from i have ix: "keys initIx =
           [ \<lparr>pubkey = key 2, isSigner = True, isWritable = True\<rparr>,
             \<lparr>pubkey = key 9, isSigner = False, isWritable = False\<rparr>,
             \<lparr>pubkey = key 3, isSigner = False, isWritable = False\<rparr>,
             \<lparr>pubkey = vaultPda0, isSigner = False, isWritable = False\<rparr>,
             \<lparr>pubkey = escrowPda0, isSigner = False, isWritable = True\<rparr>,
             \<lparr>pubkey = key 0, isSigner = False, isWritable = False\<rparr> ]"
    "data initIx = discriminator env3 ''init_escrow'' @ le64 (word_of_int 50000)
           @ le64 (word_of_int 1700003600)"
    by (auto simp add: encodeInitEscrowIx_in_range env3_fields)
  have d: "settle_encoded (discriminator env3) ?hold [key 2] initIx l
      = agreement_init ?hold [key 2] (keys initIx) 50000 1700003600 l"
    by (rule dispatch_init_escrow [OF _ _ _ _ _ _ ix(2)])
      (simp_all add: discriminator_env3 selector_values_lib0)
  have a: "agreement_init ?hold [key 2] (keys initIx) 50000 1700003600 l
      = Inl PreconditionViolation"
    unfolding ix(1)
    by (rule agreement_init_exceeds [where vr = "\<lparr>v_asset = key 3, v_authority = key 2\<rparr>"
          and va = vaultAta0 and vh = "\<lparr>h_asset = key 3, h_owner = vaultPda0, h_balance = 0\<rparr>"])
      (use ne in \<open>simp_all add: l_def ledger1_def ledger0_def ata_vault0\<close>)
  show ?thesis
    using c d a by (simp add: env3_fields settle_pair settle_instruction_def discriminator_env3)
qed

section \<open>The drivers as a whole\<close>

lemma main_vault_unfold:
  assumes "new_PublicKey E (info_programId info) = Some pid"
    and "new_PublicKey E (info_mint info) = Some mint"
    and "new_PublicKey E (info_payer info) = Some (payer_publicKey E)"
    and "new_PublicKey E (info_payerAta info) = Some buyerAta"
  shows "main_vault E info s =
      vault_submit E pid mint (payer_publicKey E) buyerAta (snd (vault_load E info s))"
  using vault_load_run [OF assms, of s] by (simp add: main_vault_def andThen_def)

lemma main_escrow_unfold:
  assumes "new_PublicKey E (info_programId info) = Some pid"
    and "new_PublicKey E (info_mint info) = Some mint"
    and "new_PublicKey E (info_payer info) = Some (payer_publicKey E)"
    and "new_PublicKey E (info_payerAta info) = Some buyerAta"
    and "deriveVaultPda E pid mint (payer_publicKey E) = Some (vaultPda, bump)"
    and "deriveEscrowPda E pid vaultPda (payer_publicKey E) (Keypair_generate E)
        = Some (escrowPda, bump')"
    and "getAssociatedTokenAddress E mint vaultPda True
        (TOKEN_PROGRAM_ID E) (ASSOCIATED_TOKEN_PROGRAM_ID E) = Some vaultAta"
    and "getAssociatedTokenAddress E mint (Keypair_generate E) False
        (TOKEN_PROGRAM_ID E) (ASSOCIATED_TOKEN_PROGRAM_ID E) = Some sellerAta"
  shows "main_escrow E info s =
      escrow_submit E pid mint (payer_publicKey E)
        (Keypair_generate E, vaultPda, escrowPda, vaultAta, sellerAta)
        (snd (escrow_addresses E pid mint (payer_publicKey E) (snd (escrow_load E info s))))"
  using escrow_load_run [OF assms(1-4), of s]
    escrow_addresses_run [OF assms(5-8), of "snd (escrow_load E info s)"]
  by (simp add: main_escrow_def andThen_def)

section \<open>Properties of the drivers\<close>

text \<open>
  C9, as the code has it. In both drivers, when the payer recorded in deploy-info.json is
  not the local wallet's public key, the script ends with an error before any instruction
  is built or submitted: the list of submitted transactions and the ledger are as
  before, so nothing is ever sent under a mismatched signer. The error is the wallet
  mismatch when the four recorded identities (program, mint, payer, payer's holding
  account) are all valid public keys; when one of them is not, the script has already
  ended with the invalid-public-key error of \<open>pubkeyFromString\<close>, which runs on all
  four before the wallet check.
\<close>

theorem wallet_mismatch_sends_nothing:
  assumes "new_PublicKey E (info_payer info) \<noteq> Some (payer_publicKey E)"
  shows "fst (main_vault E info s) =
        Inl (if new_PublicKey E (info_programId info) = None
               \<or> new_PublicKey E (info_mint info) = None
               \<or> new_PublicKey E (info_payer info) = None
               \<or> new_PublicKey E (info_payerAta info) = None
             then InvalidPublicKeyInput else WalletMismatch)
    \<and> sent (snd (main_vault E info s)) = sent s
    \<and> world (snd (main_vault E info s)) = world s
    \<and> fst (main_escrow E info s) =
        Inl (if new_PublicKey E (info_programId info) = None
               \<or> new_PublicKey E (info_mint info) = None
               \<or> new_PublicKey E (info_payer info) = None
               \<or> new_PublicKey E (info_payerAta info) = None
             then InvalidPublicKeyInput else WalletMismatch)
    \<and> sent (snd (main_escrow E info s)) = sent s
    \<and> world (snd (main_escrow E info s)) = world s"
proof -
  let ?err = "if new_PublicKey E (info_programId info) = None
               \<or> new_PublicKey E (info_mint info) = None
               \<or> new_PublicKey E (info_payer info) = None
               \<or> new_PublicKey E (info_payerAta info) = None
             then InvalidPublicKeyInput else WalletMismatch"
  note v = main_vault_guard [OF assms, of s] vault_load_no_send [of E info s]
  note e = main_escrow_guard [OF assms, of s] escrow_load_no_send [of E info s]
  have lv: "fst (vault_load E info s) = Inl ?err"
    using assms
    by (simp add: vault_load_def pubkeyFromString_def orThrow_def andThen_def ok_def throw_def
        console_log_def split: option.splits)
  have le: "fst (escrow_load E info s) = Inl ?err"
    using assms
    by (simp add: escrow_load_def pubkeyFromString_def orThrow_def andThen_def ok_def throw_def
        console_log_def split: option.splits)
  have 1: "fst (main_vault E info s) = Inl ?err"
    using v lv by (cases "vault_load E info s") simp
  have 2: "sent (snd (main_vault E info s)) = sent s" "world (snd (main_vault E info s)) = world s"
    using v by (auto split: prod.splits)
  have 3: "fst (main_escrow E info s) = Inl ?err"
    using e le by (cases "escrow_load E info s") simp
  have 4: "sent (snd (main_escrow E info s)) = sent s" "world (snd (main_escrow E info s)) = world s"
    using e by (auto split: prod.splits)
  from 1 2 3 4 show ?thesis by simp
qed

theorem wallet_mismatch_sends_nothing_witness:
  "new_PublicKey env3 (info_payer (info0\<lparr>info_payer := print0 (key 9)\<rparr>))
      \<noteq> Some (payer_publicKey env3)
   \<and> fst (main_vault env3 (info0\<lparr>info_payer := print0 (key 9)\<rparr>)
         \<lparr>world = ledger1, sent = [], console = []\<rparr>) = Inl WalletMismatch
   \<and> sent (snd (main_vault env3 (info0\<lparr>info_payer := print0 (key 9)\<rparr>)
         \<lparr>world = ledger1, sent = [], console = []\<rparr>)) = []
   \<and> fst (main_escrow env3 (info0\<lparr>info_payer := print0 (key 9)\<rparr>)
         \<lparr>world = ledger1, sent = [], console = []\<rparr>) = Inl WalletMismatch
   \<and> sent (snd (main_escrow env3 (info0\<lparr>info_payer := print0 (key 9)\<rparr>)
         \<lparr>world = ledger1, sent = [], console = []\<rparr>)) = []
   \<and> fst (main_vault env3 (info0\<lparr>info_payer := print0 (key 9), info_payerAta := ''abc''\<rparr>)
         \<lparr>world = ledger1, sent = [], console = []\<rparr>) = Inl InvalidPublicKeyInput
   \<and> sent (snd (main_vault env3
         (info0\<lparr>info_payer := print0 (key 9), info_payerAta := ''abc''\<rparr>)
         \<lparr>world = ledger1, sent = [], console = []\<rparr>)) = []"
proof -
  let ?s = "\<lparr>world = ledger1, sent = [], console = []\<rparr> :: (ledger, failure) run"
  have h: "new_PublicKey env3 (info_payer (info0\<lparr>info_payer := print0 (key 9)\<rparr>))
      \<noteq> Some (payer_publicKey env3)"
    by (simp add: env3_fields parse0_print0 key_inject)
  have h': "new_PublicKey env3
      (info_payer (info0\<lparr>info_payer := print0 (key 9), info_payerAta := ''abc''\<rparr>))
      \<noteq> Some (payer_publicKey env3)"
    by (simp add: env3_fields parse0_print0 key_inject)
  have p: "new_PublicKey env3 (info_programId info0) = Some pid0"
    "new_PublicKey env3 (info_mint info0) = Some (key 3)"
    "new_PublicKey env3 (info_payerAta info0) = Some (key 130)"
    "new_PublicKey env3 (print0 (key 9)) = Some (key 9)"
    "new_PublicKey env3 ''abc'' = None"
    by (simp_all add: env3_fields info0_def parse0_print0 parse_pid0) (simp add: parse0_def)
  from wallet_mismatch_sends_nothing [OF h, of ?s] wallet_mismatch_sends_nothing [OF h', of ?s]
    h p
  show ?thesis by simp
qed

theorem invalid_key_before_wallet_check_counterexample:
  "new_PublicKey env3
      (info_payer (info0\<lparr>info_payer := print0 (key 9), info_payerAta := ''abc''\<rparr>))
      = Some (key 9)
   \<and> payer_publicKey env3 = key 2
   \<and> key 9 \<noteq> key 2
   \<and> fst (main_vault env3 (info0\<lparr>info_payer := print0 (key 9), info_payerAta := ''abc''\<rparr>)
         \<lparr>world = ledger1, sent = [], console = []\<rparr>) = Inl InvalidPublicKeyInput
   \<and> fst (main_escrow env3 (info0\<lparr>info_payer := print0 (key 9), info_payerAta := ''abc''\<rparr>)
         \<lparr>world = ledger1, sent = [], console = []\<rparr>) = Inl InvalidPublicKeyInput
   \<and> (InvalidPublicKeyInput :: failure error) \<noteq> WalletMismatch"
proof -
  have p: "new_PublicKey env3 (info_programId info0) = Some pid0"
    "new_PublicKey env3 (info_mint info0) = Some (key 3)"
    "new_PublicKey env3 (print0 (key 9)) = Some (key 9)"
    "new_PublicKey env3 ''abc'' = None"
    by (simp_all add: env3_fields info0_def parse0_print0 parse_pid0) (simp add: parse0_def)
  have k: "key 9 \<noteq> key 2" by (simp add: key_inject)
  show ?thesis
    using p k
    by (simp add: main_vault_def vault_load_def main_escrow_def escrow_load_def
        pubkeyFromString_def orThrow_def andThen_def ok_def throw_def console_log_def
        env3_fields)
qed

text \<open>
  C6, as the code has it. In the vault driver every failure of the vault-init submission
  and of the submission that creates the vault's holding account is caught, whatever its
  category: the error is printed after a note and the driver goes on. All three
  transactions are submitted in order, and the driver ends with an error exactly when
  the custody-fund submission, the third one, is rejected.
\<close>

theorem setup_failures_are_swallowed:
  fixes E :: "('w, 'e, 'z) env_scheme"
  assumes parse: "new_PublicKey E (info_programId info) = Some pid"
      "new_PublicKey E (info_mint info) = Some mint"
      "new_PublicKey E (info_payer info) = Some (payer_publicKey E)"
      "new_PublicKey E (info_payerAta info) = Some buyerAta"
    and dv: "deriveVaultPda E pid mint (payer_publicKey E) = Some (vaultPda, bump)"
    and av: "getAssociatedTokenAddress E mint vaultPda True
              (TOKEN_PROGRAM_ID E) (ASSOCIATED_TOKEN_PROGRAM_ID E) = Some vaultAta"
    and t1: "tx1 = [Encoded (encodeInitVaultIx E
              \<lparr>iv_programId = pid, iv_authority = payer_publicKey E, iv_mint = mint,
               iv_vaultPda = vaultPda\<rparr>)]"
    and t2: "tx2 = [CreateAssociatedTokenAccount (payer_publicKey E) vaultAta vaultPda mint
              (TOKEN_PROGRAM_ID E) (ASSOCIATED_TOKEN_PROGRAM_ID E)]"
    and t3: "encodeLockTokensIx E
              \<lparr>lt_programId = pid, lt_user = payer_publicKey E, lt_mint = mint,
               lt_vaultPda = vaultPda, lt_vaultAta = vaultAta, lt_userAta = buyerAta,
               lt_amount = 100000\<rparr>
             = (Inr lockIx :: 'e error + TransactionInstruction)"
    and r1: "sendAndConfirmTransaction E (world s) tx1 [payer_publicKey E] = (res1, w1)"
    and r2: "sendAndConfirmTransaction E w1 tx2 [payer_publicKey E] = (res2, w2)"
    and r3: "sendAndConfirmTransaction E w2 [Encoded lockIx] [payer_publicKey E] = (res3, w3)"
  shows "fst (main_vault E info s) =
        (case res3 of Inl e \<Rightarrow> Inl (SendTransactionError e) | Inr sig \<Rightarrow> Inr ())
    \<and> sent (snd (main_vault E info s)) = sent s @ [tx1, tx2, [Encoded lockIx]]
    \<and> world (snd (main_vault E info s)) = w3
    \<and> (\<forall>e. res1 = Inl e \<longrightarrow>
          LogError (SendTransactionError e) \<in> set (console (snd (main_vault E info s))))
    \<and> (\<forall>e. res2 = Inl e \<longrightarrow>
          LogError (SendTransactionError e) \<in> set (console (snd (main_vault E info s))))
    \<and> console (snd (main_vault E info s)) = console s
        @ [LogKey ''Program ID:'' pid, LogKey ''Mint:'' mint,
           LogKey ''Buyer (authority):'' (payer_publicKey E), LogKey ''Buyer ATA:'' buyerAta,
           LogKey ''Vault PDA:'' vaultPda, LogKey ''Vault ATA:'' vaultAta]
        @ (case res1 of
             Inl e \<Rightarrow>
               [Log ''init_vault probably already ran, skipping. Details:'',
                LogError (SendTransactionError e)]
           | Inr sig \<Rightarrow> [LogSig ''init_vault tx sig:'' sig])
        @ (case res2 of
             Inl e \<Rightarrow>
               [Log ''vault ATA likely already exists, skipping. Details:'',
                LogError (SendTransactionError e)]
           | Inr sig \<Rightarrow> [LogSig ''create vault ATA tx sig:'' sig])
        @ (case res3 of
             Inl e \<Rightarrow> []
           | Inr sig \<Rightarrow>
               [LogSig ''lock_tokens tx sig:'' sig, Log ''DONE'',
                Log ''- Vault PDA is initialized on devnet.'',
                Log ''- Vault ATA exists for that PDA and mint.'',
                Log ''- ~0.1 Goblin Gold moved from your wallet ATA into the vault ATA.'',
                Log ''That completes: mint token -> create vault -> lock tokens in vault.'',
                Log ''Escrow is next.''])"
proof -
  have "world (snd (vault_load E info s)) = world s"
    using vault_load_no_send [of E info s] by simp
  with r1 have r1': "sendAndConfirmTransaction E (world (snd (vault_load E info s))) tx1
      [payer_publicKey E] = (res1, w1)"
    by simp
  note run = vault_submit_run [OF dv av t1 t2 t3 r1' r2 r3]
  note m = main_vault_unfold [OF parse, of s]
  have s: "sent (snd (vault_load E info s)) = sent s"
    using vault_load_no_send [of E info s] by simp
  have c: "console (snd (vault_load E info s)) = console s
      @ [LogKey ''Program ID:'' pid, LogKey ''Mint:'' mint,
         LogKey ''Buyer (authority):'' (payer_publicKey E), LogKey ''Buyer ATA:'' buyerAta]"
    using vault_load_run [OF parse, of s] by simp
  show ?thesis
    unfolding m run using s c by (auto split: sum.splits)
qed

theorem setup_failures_are_swallowed_witness:
  "fst (main_vault env_flaky info0 \<lparr>world = 0, sent = [], console = []\<rparr>) = Inr ()
   \<and> length (sent (snd (main_vault env_flaky info0 \<lparr>world = 0, sent = [], console = []\<rparr>))) = 3
   \<and> world (snd (main_vault env_flaky info0 \<lparr>world = 0, sent = [], console = []\<rparr>)) = 3
   \<and> LogError (SendTransactionError TransientSubmissionError)
        \<in> set (console (snd (main_vault env_flaky info0 \<lparr>world = 0, sent = [], console = []\<rparr>)))"
proof -
  let ?s = "\<lparr>world = 0, sent = [], console = []\<rparr> :: (nat, failure) run"
  obtain lockIx where l: "encodeLockTokensIx env_flaky
        \<lparr>lt_programId = pid0, lt_user = payer_publicKey env_flaky, lt_mint = key 3,
         lt_vaultPda = vaultPda0, lt_vaultAta = vaultAta0, lt_userAta = key 130,
         lt_amount = 100000\<rparr> = (Inr lockIx :: failure error + TransactionInstruction)"
    by (simp add: encodeLockTokensIx_in_range)
  have p: "payer_publicKey env_flaky = key 2" by (simp add: env_flaky_def env_with_fields)
  have dv: "deriveVaultPda env_flaky pid0 (key 3) (payer_publicKey env_flaky) = Some (vaultPda0, 255)"
    unfolding p by (simp add: env_flaky_def derive_vault0)
  have av: "getAssociatedTokenAddress env_flaky (key 3) vaultPda0 True
      (TOKEN_PROGRAM_ID env_flaky) (ASSOCIATED_TOKEN_PROGRAM_ID env_flaky) = Some vaultAta0"
    by (simp add: env_flaky_def env_with_fields ata_vault0)
  have r: "sendAndConfirmTransaction env_flaky (world ?s) tx [k] = (Inl TransientSubmissionError, 1)"
    "sendAndConfirmTransaction env_flaky 1 tx [k] = (Inr ''signature'', 2)"
    "sendAndConfirmTransaction env_flaky 2 tx [k] = (Inr ''signature'', 3)" for tx k
    by (simp_all add: env_flaky_def env_with_fields flaky_def)
  from setup_failures_are_swallowed [OF parse_info0 [of flaky, folded env_flaky_def] dv av refl refl
      l r(1) r(2) r(3)]
  show ?thesis by simp
qed

theorem transient_failure_swallowed_counterexample:
  "sendAndConfirmTransaction env_flaky 0
      (hd (sent (snd (main_vault env_flaky info0 \<lparr>world = 0, sent = [], console = []\<rparr>))))
      [payer_publicKey env_flaky] = (Inl TransientSubmissionError, 1)
   \<and> hd (sent (snd (main_vault env_flaky info0 \<lparr>world = 0, sent = [], console = []\<rparr>))) =
       [Encoded (encodeInitVaultIx env_flaky
          \<lparr>iv_programId = pid0, iv_authority = key 2, iv_mint = key 3, iv_vaultPda = vaultPda0\<rparr>)]
   \<and> TransientSubmissionError \<noteq> DuplicateInitialization
   \<and> fst (main_vault env_flaky info0 \<lparr>world = 0, sent = [], console = []\<rparr>) = Inr ()"
proof -
  let ?s = "\<lparr>world = 0, sent = [], console = []\<rparr> :: (nat, failure) run"
  obtain lockIx where l: "encodeLockTokensIx env_flaky
        \<lparr>lt_programId = pid0, lt_user = payer_publicKey env_flaky, lt_mint = key 3,
         lt_vaultPda = vaultPda0, lt_vaultAta = vaultAta0, lt_userAta = key 130,
         lt_amount = 100000\<rparr> = (Inr lockIx :: failure error + TransactionInstruction)"
    by (simp add: encodeLockTokensIx_in_range)
  have p: "payer_publicKey env_flaky = key 2" by (simp add: env_flaky_def env_with_fields)
  have dv: "deriveVaultPda env_flaky pid0 (key 3) (payer_publicKey env_flaky) = Some (vaultPda0, 255)"
    unfolding p by (simp add: env_flaky_def derive_vault0)
  have av: "getAssociatedTokenAddress env_flaky (key 3) vaultPda0 True
      (TOKEN_PROGRAM_ID env_flaky) (ASSOCIATED_TOKEN_PROGRAM_ID env_flaky) = Some vaultAta0"
    by (simp add: env_flaky_def env_with_fields ata_vault0)
  have r: "sendAndConfirmTransaction env_flaky (world ?s) tx [k] = (Inl TransientSubmissionError, 1)"
    "sendAndConfirmTransaction env_flaky 1 tx [k] = (Inr ''signature'', 2)"
    "sendAndConfirmTransaction env_flaky 2 tx [k] = (Inr ''signature'', 3)" for tx k
    by (simp_all add: env_flaky_def env_with_fields flaky_def)
  note parse = parse_info0 [of flaky, folded env_flaky_def]
  have w: "world (snd (vault_load env_flaky info0 ?s)) = 0" "sent (snd (vault_load env_flaky info0 ?s)) = []"
    using vault_load_no_send [of env_flaky info0 ?s] by simp_all
  have r1: "sendAndConfirmTransaction env_flaky (world (snd (vault_load env_flaky info0 ?s))) tx [k]
      = (Inl TransientSubmissionError, 1)" for tx k
    using r(1) [of tx k] w by simp
  from vault_submit_run [OF dv av refl refl l r1 r(2) r(3)] main_vault_unfold [OF parse, of ?s]
    r(1) p w
  show ?thesis by simp
qed

text \<open>
  C7, as the code has it. The escrow driver makes no check of the amount against the
  vault's holdings; it never reads a balance. Once the wallet check and the address
  derivations have passed, the next transaction it submits, whatever the ledger holds,
  is the creation of the seller's holding account together with agreement-init for 50000
  units. If that transaction is rejected, the rejection is the ledger's: it propagates to
  the caller and nothing further is submitted.
\<close>

theorem agreement_submitted_without_precheck:
  fixes E :: "('w, 'e, 'z) env_scheme"
  assumes parse: "new_PublicKey E (info_programId info) = Some pid"
      "new_PublicKey E (info_mint info) = Some mint"
      "new_PublicKey E (info_payer info) = Some (payer_publicKey E)"
      "new_PublicKey E (info_payerAta info) = Some buyerAta"
    and dv: "deriveVaultPda E pid mint (payer_publicKey E) = Some (vaultPda, bump)"
    and de: "deriveEscrowPda E pid vaultPda (payer_publicKey E) (Keypair_generate E)
        = Some (escrowPda, bump')"
    and av: "getAssociatedTokenAddress E mint vaultPda True
        (TOKEN_PROGRAM_ID E) (ASSOCIATED_TOKEN_PROGRAM_ID E) = Some vaultAta"
    and as: "getAssociatedTokenAddress E mint (Keypair_generate E) False
        (TOKEN_PROGRAM_ID E) (ASSOCIATED_TOKEN_PROGRAM_ID E) = Some sellerAta"
    and i: "encodeInitEscrowIx E
              \<lparr>ie_programId = pid, ie_buyer = payer_publicKey E, ie_seller = Keypair_generate E,
               ie_mint = mint, ie_vault = vaultPda, ie_escrow = escrowPda, ie_amount = 50000,
               ie_deadlineUnixTs = Date_now E div 1000 + 3600\<rparr>
             = (Inr initIx :: 'e error + TransactionInstruction)"
    and t1: "tx1 = [CreateAssociatedTokenAccount (payer_publicKey E) sellerAta
              (Keypair_generate E) mint (TOKEN_PROGRAM_ID E) (ASSOCIATED_TOKEN_PROGRAM_ID E),
              Encoded initIx]"
    and r1: "sendAndConfirmTransaction E (world s) tx1 [payer_publicKey E] = (res1, w1)"
  shows "take (Suc (length (sent s))) (sent (snd (main_escrow E info s))) = sent s @ [tx1]
    \<and> (\<forall>e. res1 = Inl e \<longrightarrow>
          fst (main_escrow E info s) = Inl (SendTransactionError e)
          \<and> sent (snd (main_escrow E info s)) = sent s @ [tx1]
          \<and> world (snd (main_escrow E info s)) = w1)"
proof -
  let ?s1 = "snd (escrow_load E info s)"
  let ?s2 = "snd (escrow_addresses E pid mint (payer_publicKey E) ?s1)"
  have w: "world ?s2 = world s" "sent ?s2 = sent s"
    using escrow_load_no_send [of E info s]
      escrow_addresses_no_send [of E pid mint "payer_publicKey E" ?s1]
    by simp_all
  with r1 have r1': "sendAndConfirmTransaction E (world ?s2) tx1 [payer_publicKey E] = (res1, w1)"
    by simp
  obtain res2 w2 where r2: "sendAndConfirmTransaction E w1
      [Encoded (encodeReleaseToSellerIx E
         \<lparr>rs_programId = pid, rs_buyer = payer_publicKey E, rs_seller = Keypair_generate E,
          rs_mint = mint, rs_escrow = escrowPda, rs_vault = vaultPda, rs_vaultAta = vaultAta,
          rs_sellerAta = sellerAta\<rparr>)] [payer_publicKey E] = (res2, w2)"
    by (meson surj_pair)
  note run = escrow_submit_run [OF i t1 refl r1' r2]
  note m = main_escrow_unfold [OF parse dv de av as, of s]
  show ?thesis
    unfolding m run using w by (auto split: sum.splits)
qed

theorem agreement_submitted_without_precheck_witness:
  "holdings ledger1 vaultAta0 = Some \<lparr>h_asset = key 3, h_owner = vaultPda0, h_balance = 0\<rparr>
   \<and> length (sent (snd (main_escrow env3 info0 \<lparr>world = ledger1, sent = [], console = []\<rparr>))) = 1
   \<and> fst (main_escrow env3 info0 \<lparr>world = ledger1, sent = [], console = []\<rparr>)
       = Inl (SendTransactionError PreconditionViolation)
   \<and> world (snd (main_escrow env3 info0 \<lparr>world = ledger1, sent = [], console = []\<rparr>)) = ledger1"
proof -
  let ?s = "\<lparr>world = ledger1, sent = [], console = []\<rparr> :: (ledger, failure) run"
  obtain initIx where i: "encodeInitEscrowIx env3
        \<lparr>ie_programId = pid0, ie_buyer = payer_publicKey env3, ie_seller = Keypair_generate env3,
         ie_mint = key 3, ie_vault = vaultPda0, ie_escrow = escrowPda0, ie_amount = 50000,
         ie_deadlineUnixTs = Date_now env3 div 1000 + 3600\<rparr>
        = (Inr initIx :: failure error + TransactionInstruction)"
    by (simp add: encodeInitEscrowIx_in_range env3_fields)
  have dv: "deriveVaultPda env3 pid0 (key 3) (payer_publicKey env3) = Some (vaultPda0, 255)"
    and de: "deriveEscrowPda env3 pid0 vaultPda0 (payer_publicKey env3) (Keypair_generate env3)
        = Some (escrowPda0, 255)"
    by (simp_all add: env3_fields derive_env3)
  have av: "getAssociatedTokenAddress env3 (key 3) vaultPda0 True
      (TOKEN_PROGRAM_ID env3) (ASSOCIATED_TOKEN_PROGRAM_ID env3) = Some vaultAta0"
    and as: "getAssociatedTokenAddress env3 (key 3) (Keypair_generate env3) False
      (TOKEN_PROGRAM_ID env3) (ASSOCIATED_TOKEN_PROGRAM_ID env3) = Some (key 137)"
    by (simp_all add: env3_fields ata_vault0 ata0_key)
  have r: "sendAndConfirmTransaction env3 (world ?s)
      [CreateAssociatedTokenAccount (payer_publicKey env3) (key 137) (Keypair_generate env3)
         (key 3) (TOKEN_PROGRAM_ID env3) (ASSOCIATED_TOKEN_PROGRAM_ID env3), Encoded initIx]
      [payer_publicKey env3] = (Inl PreconditionViolation, ledger1)"
    using over_holdings_rejected [of initIx] i by (simp add: env3_fields)
  have h: "holdings ledger1 vaultAta0 = Some \<lparr>h_asset = key 3, h_owner = vaultPda0, h_balance = 0\<rparr>"
    by (simp add: ledger1_def)
  from agreement_submitted_without_precheck [OF parse_info0_env3 dv de av as i refl r] h
  show ?thesis by simp
qed

theorem no_precheck_counterexample:
  "holdings ledger1 vaultAta0 = Some \<lparr>h_asset = key 3, h_owner = vaultPda0, h_balance = 0\<rparr>
   \<and> (0 :: int) < 50000
   \<and> sent (snd (main_escrow env3 info0 \<lparr>world = ledger1, sent = [], console = []\<rparr>)) \<noteq> []
   \<and> fst (main_escrow env3 info0 \<lparr>world = ledger1, sent = [], console = []\<rparr>)
       = Inl (SendTransactionError PreconditionViolation)"
proof -
  let ?s = "\<lparr>world = ledger1, sent = [], console = []\<rparr> :: (ledger, failure) run"
  obtain initIx where i: "encodeInitEscrowIx env3
        \<lparr>ie_programId = pid0, ie_buyer = payer_publicKey env3, ie_seller = Keypair_generate env3,
         ie_mint = key 3, ie_vault = vaultPda0, ie_escrow = escrowPda0, ie_amount = 50000,
         ie_deadlineUnixTs = Date_now env3 div 1000 + 3600\<rparr>
        = (Inr initIx :: failure error + TransactionInstruction)"
    by (simp add: encodeInitEscrowIx_in_range env3_fields)
  have dv: "deriveVaultPda env3 pid0 (key 3) (payer_publicKey env3) = Some (vaultPda0, 255)"
    and de: "deriveEscrowPda env3 pid0 vaultPda0 (payer_publicKey env3) (Keypair_generate env3)
        = Some (escrowPda0, 255)"
    by (simp_all add: env3_fields derive_env3)
  have av: "getAssociatedTokenAddress env3 (key 3) vaultPda0 True
      (TOKEN_PROGRAM_ID env3) (ASSOCIATED_TOKEN_PROGRAM_ID env3) = Some vaultAta0"
    and as: "getAssociatedTokenAddress env3 (key 3) (Keypair_generate env3) False
      (TOKEN_PROGRAM_ID env3) (ASSOCIATED_TOKEN_PROGRAM_ID env3) = Some (key 137)"
    by (simp_all add: env3_fields ata_vault0 ata0_key)
  have r: "sendAndConfirmTransaction env3 (world ?s)
      [CreateAssociatedTokenAccount (payer_publicKey env3) (key 137) (Keypair_generate env3)
         (key 3) (TOKEN_PROGRAM_ID env3) (ASSOCIATED_TOKEN_PROGRAM_ID env3), Encoded initIx]
      [payer_publicKey env3] = (Inl PreconditionViolation, ledger1)"
    using over_holdings_rejected [of initIx] i by (simp add: env3_fields)
  have h: "holdings ledger1 vaultAta0 = Some \<lparr>h_asset = key 3, h_owner = vaultPda0, h_balance = 0\<rparr>"
    by (simp add: ledger1_def)
  let ?s1 = "snd (escrow_load env3 info0 ?s)"
  let ?s2 = "snd (escrow_addresses env3 pid0 (key 3) (payer_publicKey env3) ?s1)"
  have w: "world ?s2 = ledger1" "sent ?s2 = []"
    using escrow_load_no_send [of env3 info0 ?s]
      escrow_addresses_no_send [of env3 pid0 "key 3" "payer_publicKey env3" ?s1]
    by simp_all
  from r w have r1: "sendAndConfirmTransaction env3 (world ?s2)
      [CreateAssociatedTokenAccount (payer_publicKey env3) (key 137) (Keypair_generate env3)
         (key 3) (TOKEN_PROGRAM_ID env3) (ASSOCIATED_TOKEN_PROGRAM_ID env3), Encoded initIx]
      [payer_publicKey env3] = (Inl PreconditionViolation, ledger1)"
    by simp
  obtain res2 w2 where r2: "sendAndConfirmTransaction env3 ledger1
      [Encoded (encodeReleaseToSellerIx env3
         \<lparr>rs_programId = pid0, rs_buyer = payer_publicKey env3,
          rs_seller = Keypair_generate env3, rs_mint = key 3, rs_escrow = escrowPda0,
          rs_vault = vaultPda0, rs_vaultAta = vaultAta0, rs_sellerAta = key 137\<rparr>)]
      [payer_publicKey env3] = (res2, w2)"
    by (meson surj_pair)
  from escrow_submit_run [OF i refl refl r1 r2]
    main_escrow_unfold [OF parse_info0_env3 dv de av as, of ?s] h w
  show ?thesis by simp
qed

text \<open>
  C8. The three drivers, run in order against the settlement executor on a ledger that
  has none of the accounts yet, realise the scenario. The first creates the asset with 6
  decimal places and records it in deploy-info.json. The second initialises the vault,
  creates its holding account and locks exactly 100000 base units in it. The third, with
  the seller it generates, creates one agreement for exactly 50000 base units with the
  deadline 3600 seconds after the clock's current second, creates the seller's holding
  account and releases. All three end without error; at the end the vault's holding
  account holds 50000 units, the seller's holds 50000 units and the agreement is
  Released.
\<close>

theorem end_to_end_scenario:
  fixes E :: "(ledger, failure, 'z) env_scheme"
  assumes exec: "sendAndConfirmTransaction E = settle (discriminator E) (holding_address E)"
    and sel: "distinct (map (discriminator E)
        [''init_vault'', ''lock_tokens'', ''init_escrow'', ''release_to_seller''])"
    and print_parse: "\<forall>k. new_PublicKey E (toBase58 E k) = Some k"
    and prog: "new_PublicKey E ''AhtmyF1FM2NwGYECDzgjC6jbNtPnSRDFzhahugFfqkZW'' = Some pid"
    and pa: "getAssociatedTokenAddress E (Keypair_generate E) (payer_publicKey E) False
        (TOKEN_PROGRAM_ID E) (ASSOCIATED_TOKEN_PROGRAM_ID E) = Some buyerAta"
    and dv: "deriveVaultPda E pid (Keypair_generate E) (payer_publicKey E) = Some (vaultPda, bump)"
    and de: "deriveEscrowPda E pid vaultPda (payer_publicKey E) seller = Some (escrowPda, bump')"
    and av: "holding_address E (Keypair_generate E) vaultPda = Some vaultAta"
    and as: "getAssociatedTokenAddress E (Keypair_generate E) seller False
        (TOKEN_PROGRAM_ID E) (ASSOCIATED_TOKEN_PROGRAM_ID E) = Some sellerAta"
    and dist: "distinct [buyerAta, vaultAta, sellerAta]"
    and fresh: "assets l0 (Keypair_generate E) = None" "holdings l0 buyerAta = None"
      "holdings l0 vaultAta = None" "holdings l0 sellerAta = None"
      "vaults l0 vaultPda = None" "agreements l0 escrowPda = None"
    and time: "clock l0 < Date_now E div 1000 + 3600" "0 \<le> Date_now E"
      "Date_now E div 1000 + 3600 < 2 ^ 63"
  shows "let mint = Keypair_generate E;
             r1 = main_mint E \<lparr>world = l0, sent = [], console = []\<rparr>;
             info = projr (fst r1);
             r2 = main_vault E info (snd r1);
             r3 = main_escrow (E\<lparr>Keypair_generate := seller\<rparr>) info (snd r2);
             final = world (snd r3)
         in fst r1 = Inr info \<and> info_decimals info = 6
          \<and> assets final mint =
              Some \<lparr>d_decimals = 6, d_mint_authority = payer_publicKey E,
                    d_freeze_authority = payer_publicKey E\<rparr>
          \<and> fst r2 = Inr ()
          \<and> holdings (world (snd r2)) vaultAta =
              Some \<lparr>h_asset = mint, h_owner = vaultPda, h_balance = 100000\<rparr>
          \<and> fst r3 = Inr ()
          \<and> agreements final escrowPda =
              Some \<lparr>a_vault = vaultPda, a_buyer = payer_publicKey E, a_seller = seller,
                    a_amount = 50000, a_deadline = Date_now E div 1000 + 3600,
                    a_status = Released\<rparr>
          \<and> holdings final vaultAta =
              Some \<lparr>h_asset = mint, h_owner = vaultPda, h_balance = 50000\<rparr>
          \<and> holdings final sellerAta =
              Some \<lparr>h_asset = mint, h_owner = seller, h_balance = 50000\<rparr>"
proof -
  let ?mint = "Keypair_generate E"
  let ?payer = "payer_publicKey E"
  let ?E3 = "E\<lparr>Keypair_generate := seller\<rparr>"
  let ?r1 = "main_mint E \<lparr>world = l0, sent = [], console = []\<rparr>"
  define info where "info =
     \<lparr> info_programId = ''AhtmyF1FM2NwGYECDzgjC6jbNtPnSRDFzhahugFfqkZW'',
       info_mint = toBase58 E ?mint, info_payer = toBase58 E ?payer,
       info_payerAta = toBase58 E buyerAta, info_decimals = 6,
       info_tokenName = ''Goblin Gold'' \<rparr>"
  let ?bh = "\<lparr>h_asset = ?mint, h_owner = ?payer, h_balance = 1000000000000\<rparr>"
  define l1 where "l1 = l0\<lparr>assets := (assets l0)(?mint \<mapsto>
       \<lparr>d_decimals = 6, d_mint_authority = ?payer, d_freeze_authority = ?payer\<rparr>),
     holdings := (holdings l0)(buyerAta \<mapsto> ?bh)\<rparr>"
  define l2 where "l2 = l1\<lparr>vaults := (vaults l1)(vaultPda \<mapsto>
       \<lparr>v_asset = ?mint, v_authority = ?payer\<rparr>),
     holdings := (holdings l1)
       (buyerAta \<mapsto> ?bh\<lparr>h_balance := h_balance ?bh - 100000\<rparr>,
        vaultAta \<mapsto> \<lparr>h_asset = ?mint, h_owner = vaultPda, h_balance = 100000\<rparr>)\<rparr>"
  let ?vh = "\<lparr>h_asset = ?mint, h_owner = vaultPda, h_balance = 100000\<rparr>"
  define l3 where "l3 = l2\<lparr>holdings := (holdings l2)
       (vaultAta \<mapsto> ?vh\<lparr>h_balance := h_balance ?vh - 50000\<rparr>,
        sellerAta \<mapsto> \<lparr>h_asset = ?mint, h_owner = seller, h_balance = 50000\<rparr>),
     agreements := (agreements l2)(escrowPda \<mapsto>
       \<lparr>a_vault = vaultPda, a_buyer = ?payer, a_seller = seller, a_amount = 50000,
        a_deadline = Date_now E div 1000 + 3600, a_status = Released\<rparr>)\<rparr>"
  from dist have ne: "vaultAta \<noteq> buyerAta" "vaultAta \<noteq> sellerAta" "buyerAta \<noteq> sellerAta"
    by auto
  from sel have sel1: "discriminator E ''lock_tokens'' \<noteq> discriminator E ''init_vault''"
    by auto
  text \<open>Script 1.\<close>
  have m: "fst ?r1 = Inr info" "world (snd ?r1) = l1"
    using main_mint_on_ledger [OF exec pa fresh(1) fresh(2), of "[]" "[]"]
    by (simp_all add: info_def l1_def)
  obtain ts1 c1 where s1: "snd ?r1 = \<lparr>world = l1, sent = ts1, console = c1\<rparr>"
    using m(2) by (cases "snd ?r1") simp
  text \<open>Script 2.\<close>
  have parse: "new_PublicKey E (info_programId info) = Some pid"
      "new_PublicKey E (info_mint info) = Some ?mint"
      "new_PublicKey E (info_payer info) = Some ?payer"
      "new_PublicKey E (info_payerAta info) = Some buyerAta"
    using print_parse prog by (simp_all add: info_def)
  have v: "fst (main_vault E info (snd ?r1)) = Inr ()" "world (snd (main_vault E info (snd ?r1))) = l2"
    unfolding s1
    using main_vault_on_ledger [OF exec sel1 parse dv av ne(1), of l1 ?bh ts1 c1] fresh ne
    by (simp_all add: l1_def l2_def)
  obtain ts2 c2 where s2: "snd (main_vault E info (snd ?r1)) = \<lparr>world = l2, sent = ts2, console = c2\<rparr>"
    using v(2) by (cases "snd (main_vault E info (snd ?r1))") simp
  text \<open>Script 3, with the seller as the key pair generated in its run.\<close>
  have d3: "discriminator ?E3 = discriminator E"
    by (rule ext) (simp add: discriminator_def)
  have h3: "holding_address ?E3 = holding_address E"
    by (intro ext) (simp add: holding_address_def)
  have e3: "sendAndConfirmTransaction ?E3 = settle (discriminator ?E3) (holding_address ?E3)"
    "discriminator ?E3 = discriminator E"
    using exec by (simp_all add: d3 h3)
  have x: "fst (main_escrow ?E3 info (snd (main_vault E info (snd ?r1)))) = Inr ()"
    "world (snd (main_escrow ?E3 info (snd (main_vault E info (snd ?r1))))) = l3"
    unfolding s2
    using main_escrow_on_ledger [of ?E3 info pid ?mint buyerAta vaultPda bump escrowPda bump'
        vaultAta sellerAta l2 "\<lparr>v_asset = ?mint, v_authority = ?payer\<rparr>" ?vh ts2 c2]
      e3 sel parse dv de av as ne fresh time
    by (simp_all add: deriveVaultPda_def deriveEscrowPda_def holding_address_def l1_def l2_def
        l3_def)
  show ?thesis
    using m v x ne by (simp add: Let_def info_def l1_def l2_def l3_def)
qed

theorem end_to_end_scenario_witness:
  "let mint = Keypair_generate env0;
       r1 = main_mint env0 \<lparr>world = ledger0, sent = [], console = []\<rparr>;
       info = projr (fst r1);
       r2 = main_vault env0 info (snd r1);
       r3 = main_escrow (env0\<lparr>Keypair_generate := key 9\<rparr>) info (snd r2);
       final = world (snd r3)
   in fst r1 = Inr info \<and> info_decimals info = 6
    \<and> assets final mint =
        Some \<lparr>d_decimals = 6, d_mint_authority = payer_publicKey env0,
              d_freeze_authority = payer_publicKey env0\<rparr>
    \<and> fst r2 = Inr ()
    \<and> holdings (world (snd r2)) vaultAta0 =
        Some \<lparr>h_asset = mint, h_owner = vaultPda0, h_balance = 100000\<rparr>
    \<and> fst r3 = Inr ()
    \<and> agreements final escrowPda0 =
        Some \<lparr>a_vault = vaultPda0, a_buyer = payer_publicKey env0, a_seller = key 9,
              a_amount = 50000, a_deadline = Date_now env0 div 1000 + 3600,
              a_status = Released\<rparr>
    \<and> holdings final vaultAta0 =
        Some \<lparr>h_asset = mint, h_owner = vaultPda0, h_balance = 50000\<rparr>
    \<and> holdings final (key 137) =
        Some \<lparr>h_asset = mint, h_owner = key 9, h_balance = 50000\<rparr>"
proof -
  let ?f = "settle (discriminator lib0) (\<lambda>a w. ata0 a w True (key 6) (key 7))"
  have d: "discriminator env0 = discriminator lib0"
    by (rule ext) (simp add: env0_def discriminator_env_with)
  have h: "holding_address env0 = (\<lambda>a w. ata0 a w True (key 6) (key 7))"
    by (intro ext) (simp add: holding_address_def env0_def env_with_fields)
  have exec: "sendAndConfirmTransaction env0 = settle (discriminator env0) (holding_address env0)"
    unfolding d h by (simp add: env0_def env_with_fields)
  have sel: "distinct (map (discriminator env0)
        [''init_vault'', ''lock_tokens'', ''init_escrow'', ''release_to_seller''])"
    unfolding d by (rule selectors_distinct_lib0)
  have pp: "\<forall>k. new_PublicKey env0 (toBase58 env0 k) = Some k"
    by (simp add: env0_def env_with_fields parse0_print0)
  have prog: "new_PublicKey env0 ''AhtmyF1FM2NwGYECDzgjC6jbNtPnSRDFzhahugFfqkZW'' = Some pid0"
    by (simp add: env0_def env_with_fields parse_pid0)
  have pa: "getAssociatedTokenAddress env0 (Keypair_generate env0) (payer_publicKey env0) False
        (TOKEN_PROGRAM_ID env0) (ASSOCIATED_TOKEN_PROGRAM_ID env0) = Some (key 130)"
    by (simp add: env0_def env_with_fields ata0_key)
  have dv: "deriveVaultPda env0 pid0 (Keypair_generate env0) (payer_publicKey env0)
        = Some (vaultPda0, 255)"
    using derive_vault0 [of ?f pid0] by (simp add: env0_def env_with_fields)
  have de: "deriveEscrowPda env0 pid0 vaultPda0 (payer_publicKey env0) (key 9)
        = Some (escrowPda0, 255)"
    using derive_escrow0 [of ?f pid0] by (simp add: env0_def env_with_fields)
  have av: "holding_address env0 (Keypair_generate env0) vaultPda0 = Some vaultAta0"
    unfolding h by (simp add: ata_vault0)
  have as: "getAssociatedTokenAddress env0 (Keypair_generate env0) (key 9) False
        (TOKEN_PROGRAM_ID env0) (ASSOCIATED_TOKEN_PROGRAM_ID env0) = Some (key 137)"
    by (simp add: env0_def env_with_fields ata0_key)
  have dist: "distinct [key 130, vaultAta0, key 137]"
    using vaultAta0_not_key [of 130] vaultAta0_not_key [of 137]
    by (auto simp add: key_inject)
  have fresh: "assets ledger0 (Keypair_generate env0) = None" "holdings ledger0 (key 130) = None"
      "holdings ledger0 vaultAta0 = None" "holdings ledger0 (key 137) = None"
      "vaults ledger0 vaultPda0 = None" "agreements ledger0 escrowPda0 = None"
    by (simp_all add: ledger0_def)
  have time: "clock ledger0 < Date_now env0 div 1000 + 3600" "0 \<le> Date_now env0"
      "Date_now env0 div 1000 + 3600 < 2 ^ 63"
    by (simp_all add: ledger0_def env0_def env_with_fields)
  show ?thesis
    by (rule end_to_end_scenario [OF exec sel pp prog pa dv de av as dist fresh time])
qed

end
